(* ===== verification/RAG_Prelude.thy ===== *)
theory RAG_Prelude
  imports Main "HOL-Library.Sublist"
begin

text \<open>
  Shared vocabulary of the development: the error values that stand for the
  exceptions the pages let propagate, the outcome of a Streamlit script run
  (finished or aborted by an exception, with the state reached either way),
  Python dictionaries with string keys, and the few Python string primitives
  the pages use (\<open>in\<close> on strings, \<open>str.split()\<close>, \<open>str.join\<close>),
  each with the lemmas the component theories share.
\<close>

named_theorems py_simps "evaluation rules of the Python string and dict primitives"

section \<open>Errors and script outcomes\<close>

text \<open>
  An exception raised by an external service (the Unstructured partitioner, the
  Groq or Ollama model, the Ollama embedder) carries only its message. The
  library errors the pages can trigger are named: a Chroma query or write with
  embeddings of the wrong dimension, a missing dictionary key, and an unknown
  chat role in a message dictionary.
\<close>

datatype error =
    ServiceError string
  | InvalidDimension nat nat
  | KeyError string
  | ValueError string

text \<open>
  Streamlit runs a page as a script. A script either runs to its end or is
  aborted by an uncaught exception; in both cases the mutations it made before
  the exception (to \<open>st.session_state\<close>, to files, to the stores) remain.
\<close>

datatype 's run = Done 's | Raised error 's

fun run_state :: "'s run \<Rightarrow> 's" where
  "run_state (Done s) = s"
| "run_state (Raised e s) = s"

fun run_then :: "'s run \<Rightarrow> ('s \<Rightarrow> 's run) \<Rightarrow> 's run" where
  "run_then (Done s) f = f s"
| "run_then (Raised e s) f = Raised e s"

lemma run_then_Done_iff [simp]:
  "run_then r f = Done t \<longleftrightarrow> (\<exists>s. r = Done s \<and> f s = Done t)"
  by (cases r) auto

section \<open>Python dictionaries\<close>

text \<open>
  A dictionary literal \<open>{k1: v1, k2: v2}\<close> with distinct string keys is an
  association list; \<open>k in d\<close> and \<open>d[k]\<close> are \<open>map_of\<close>, and \<open>d[k]\<close> on a
  missing key raises \<open>KeyError\<close>.
\<close>

type_synonym py_dict = "(string \<times> string) list"

definition py_has_key :: "py_dict \<Rightarrow> string \<Rightarrow> bool" where
  "py_has_key d k \<longleftrightarrow> map_of d k \<noteq> None"

definition py_getitem :: "py_dict \<Rightarrow> string \<Rightarrow> error + string" where
  "py_getitem d k = (case map_of d k of None \<Rightarrow> Inl (KeyError k) | Some v \<Rightarrow> Inr v)"

lemma py_getitem_Inr_iff [py_simps]:
  "py_getitem d k = Inr v \<longleftrightarrow> map_of d k = Some v"
  by (simp add: py_getitem_def split: option.splits)

lemma py_has_key_getitem:
  "py_has_key d k \<Longrightarrow> \<exists>v. py_getitem d k = Inr v"
  by (auto simp: py_has_key_def py_getitem_def)

section \<open>Strings\<close>

subsection \<open>Substring test: Python's \<open>needle in haystack\<close> on \<open>str\<close>\<close>

fun py_in :: "string \<Rightarrow> string \<Rightarrow> bool" where
  "py_in xs [] \<longleftrightarrow> xs = []"
| "py_in xs (y # ys) \<longleftrightarrow> take (length xs) (y # ys) = xs \<or> py_in xs ys"

lemma take_length_eq_prefix: "take (length xs) ys = xs \<longleftrightarrow> prefix xs ys"
  by (metis append_take_drop_id prefix_def append_eq_conv_conj)

text \<open>The recursive test decides the library's \<open>sublist\<close> relation.\<close>

lemma py_in_sublist [py_simps]: "py_in xs ys \<longleftrightarrow> sublist xs ys"
  by (induction xs ys rule: py_in.induct) (auto simp: take_length_eq_prefix sublist_Cons_right)

lemma py_in_append_middle: "py_in xs (ps @ xs @ ss)"
  by (simp add: py_in_sublist)

subsection \<open>Whitespace splitting: \<open>str.split()\<close> without arguments\<close>

text \<open>
  CPython's \<open>str.split()\<close> drops leading and trailing whitespace and splits at
  every maximal run of whitespace. A string of the model is the UTF-8 byte
  sequence of a \<open>str\<close>, so only the ASCII whitespace (U+0009 to U+000D and
  U+001C to U+0020) is a single character here; bytes 0x85 and 0xA0 are parts
  of multi-byte characters (U+00E0 is C3 A0) and are not blanks. The
  non-ASCII whitespace code points are left out of the model.
  The loop below is CPython's scan with the current word as an accumulator.
\<close>

definition is_py_space :: "char \<Rightarrow> bool" where
  "is_py_space c \<longleftrightarrow>
     (let n = (of_char c :: nat) in (9 \<le> n \<and> n \<le> 13) \<or> (28 \<le> n \<and> n \<le> 32))"

fun split_acc :: "string \<Rightarrow> string \<Rightarrow> string list" where
  "split_acc [] w = (if w = [] then [] else [w])"
| "split_acc (c # cs) w =
     (if is_py_space c then (if w = [] then split_acc cs [] else w # split_acc cs [])
      else split_acc cs (w @ [c]))"

definition py_split :: "string \<Rightarrow> string list" where
  "py_split s = split_acc s []"

definition no_space :: "string \<Rightarrow> bool" where
  "no_space w \<longleftrightarrow> (\<forall>c \<in> set w. \<not> is_py_space c)"

lemma is_py_space_blank [simp, py_simps]: "is_py_space (CHR '' '')"
  by (simp add: is_py_space_def)

lemma no_space_Nil [simp]: "no_space []"
  by (simp add: no_space_def)

lemma no_space_snoc [simp]: "no_space (w @ [c]) \<longleftrightarrow> no_space w \<and> \<not> is_py_space c"
  by (auto simp: no_space_def)

lemma split_acc_words:
  "no_space w \<Longrightarrow> v \<in> set (split_acc s w) \<Longrightarrow> v \<noteq> [] \<and> no_space v"
proof (induction s w rule: split_acc.induct)
  case (1 w)
  then show ?case by (simp split: if_splits)
next
  case (2 c cs w)
  show ?case
  proof (cases "is_py_space c")
    case True
    note h = "2.prems" "2.IH"(1,2)
    show ?thesis
    proof (cases "w = []")
      case True2: True
      with True h show ?thesis by simp
    next
      case False2: False
      with True h show ?thesis by (auto simp del: no_space_snoc)
    qed
  next
    case False
    with "2.prems"(1) have "no_space (w @ [c])" by simp
    with False "2.prems"(2) "2.IH"(3) show ?thesis by simp
  qed
qed

lemma py_split_words: "v \<in> set (py_split s) \<Longrightarrow> v \<noteq> [] \<and> no_space v"
  using split_acc_words [of "[]" v s] by (simp add: py_split_def no_space_def)

lemma split_acc_word_append:
  "no_space u \<Longrightarrow> split_acc (u @ rest) w = split_acc rest (w @ u)"
proof (induction u arbitrary: w)
  case Nil
  then show ?case by simp
next
  case (Cons c u)
  then have "\<not> is_py_space c" and "no_space u" by (simp_all add: no_space_def)
  with Cons.IH show ?case by simp
qed

text \<open>
  Writing every word followed by one blank, as the word-by-word typing loop of
  the local chat page does, and splitting again gives the words back.
\<close>

definition words_spaced :: "string list \<Rightarrow> string" where
  "words_spaced ws = concat (map (\<lambda>w. w @ '' '') ws)"

lemma split_acc_words_spaced:
  "\<forall>v \<in> set ws. v \<noteq> [] \<and> no_space v \<Longrightarrow> no_space w \<Longrightarrow>
   split_acc (words_spaced ws) w = (if w = [] then ws else case ws of [] \<Rightarrow> [w] | v # vs \<Rightarrow> (w @ v) # vs)"
proof (induction ws arbitrary: w)
  case Nil
  then show ?case by (simp add: words_spaced_def)
next
  case (Cons v vs)
  have v: "v \<noteq> []" "no_space v" and vs: "\<forall>u \<in> set vs. u \<noteq> [] \<and> no_space u"
    using Cons.prems(1) by simp_all
  have ih: "split_acc (words_spaced vs) [] = vs"
    using Cons.IH [OF vs no_space_Nil] by simp
  have "split_acc (words_spaced (v # vs)) w = split_acc (CHR '' '' # words_spaced vs) (w @ v)"
    using v(2) split_acc_word_append [of v "CHR '' '' # words_spaced vs" w] by (simp add: words_spaced_def)
  also have "\<dots> = (w @ v) # vs"
    using v(1) ih by simp
  finally show ?case by (cases w) simp_all
qed

lemma py_split_words_spaced:
  "\<forall>v \<in> set ws. v \<noteq> [] \<and> no_space v \<Longrightarrow> py_split (words_spaced ws) = ws"
  using split_acc_words_spaced [of ws "[]"] by (simp add: py_split_def)

subsection \<open>\<open>sep.join(parts)\<close>\<close>

fun py_join :: "string \<Rightarrow> string list \<Rightarrow> string" where
  "py_join sep [] = []"
| "py_join sep [x] = x"
| "py_join sep (x # y # zs) = x @ sep @ py_join sep (y # zs)"

lemma py_join_Cons [py_simps]:
  "py_join sep (x # xs) = (if xs = [] then x else x @ sep @ py_join sep xs)"
  by (cases xs) simp_all

section \<open>Fresh identifiers\<close>

text \<open>
  The pages name documents with \<open>str(uuid.uuid4())\<close>, and the Chroma wrapper
  names vector entries the same way. The development relies on what the code
  relies on, that every call returns a string not returned before; it models the
  generator as the \<open>n\<close>-th value of a fixed injective sequence, and each store
  keeps the index of the next call. \<open>uuids start k\<close> is the page's comprehension
  \<open>[str(uuid.uuid4()) for _ in elements]\<close> (\<open>src/pages/3Knowlage.py\<close>,
  lines 130 and 140) over \<open>k\<close> elements, starting at call \<open>start\<close>.
\<close>

definition uuid4 :: "nat \<Rightarrow> string" where
  "uuid4 n = ''uuid-'' @ replicate n (CHR ''0'')"

lemma uuid4_inject [simp]: "uuid4 m = uuid4 n \<longleftrightarrow> m = n"
  by (simp add: uuid4_def replicate_eq_replicate)

definition uuids :: "nat \<Rightarrow> nat \<Rightarrow> string list" where
  "uuids start k = map uuid4 [start..<start + k]"
lemma length_uuids [simp]: "length (uuids start k) = k"
  by (simp add: uuids_def)
lemma distinct_uuids [simp]: "distinct (uuids start k)"
  by (simp add: uuids_def distinct_map inj_on_def)
lemma uuids_eq_Nil [simp]: "uuids start k = [] \<longleftrightarrow> k = 0"
  by (auto simp: uuids_def)

lemma set_uuids: "set (uuids start k) = uuid4 ` {start..<start + k}"
  by (simp add: uuids_def)
lemma uuids_add: "uuids start (k + l) = uuids start k @ uuids (start + k) l"
proof -
  have "[start..<start + (k + l)] = [start..<start + k] @ [start + k..<start + k + l]"
    using upt_add_eq_append [of start "start + k" l] by (simp add: add.assoc)
  then show ?thesis by (simp add: uuids_def)
qed
lemma uuid4_in_uuids [simp]: "uuid4 n \<in> set (uuids start k) \<longleftrightarrow> start \<le> n \<and> n < start + k"
  by (auto simp: set_uuids)

section \<open>Lists\<close>

lemma map_of_rev_distinct: "distinct (map fst xs) \<Longrightarrow> map_of (rev xs) = map_of xs"
  by (simp add: map_of_inject_set rev_map [symmetric])

lemma map_of_zip_distinct_nth:
  "distinct ks \<Longrightarrow> length ks = length vs \<Longrightarrow> i < length ks \<Longrightarrow> map_of (zip ks vs) (ks ! i) = Some (vs ! i)"
  by (simp add: map_of_zip_nth)

lemma map_add_map_of_zip:
  "distinct ks \<Longrightarrow> length ks = length vs \<Longrightarrow> map (m ++ map_of (zip ks vs)) ks = map Some vs"
  by (rule nth_equalityI) (simp_all add: map_of_zip_distinct_nth map_add_find_right)

lemma words_spaced_join:
  "words_spaced ws = (if ws = [] then [] else py_join '' '' ws @ '' '')"
  by (induction ws rule: induct_list012) (simp_all add: words_spaced_def)

lemma length_map_filter_le: "length (List.map_filter f xs) \<le> length xs"
  by (induction xs) (simp_all add: List.map_filter_simps split: option.split)

end
