(* ===== verification/Stores.thy ===== *)
theory Stores
  imports RAG_Prelude
begin

text \<open>
  The two stores every page opens: the key-value docstore
  (\<open>create_kv_docstore(LocalFileStore("./docstore"))\<close>) that maps a document
  identifier to the original content, and the Chroma collection \<open>"database"\<close>
  under \<open>./vectorDB\<close> that holds the indexed documents with their embeddings.
  Both are library code; they are modelled from the behaviour the pages rely on:
  \<open>mset\<close>/\<open>mget\<close> of the docstore, and \<open>add_documents\<close>, similarity search and
  \<open>update_document\<close> of the langchain Chroma wrapper over chromadb, including
  chromadb's checks (a non-empty id list, one embedding dimension per collection).
  The embedding vectors themselves are abstracted: a collection records its
  dimension, and similarity search ranks entries by a distance function given as a
  parameter.
\<close>

section \<open>Documents\<close>

text \<open>\<open>langchain.schema.document.Document(page_content=..., metadata={...})\<close>.\<close>

record document =
  page_content :: string
  metadata :: py_dict

text \<open>The retrievers and the knowledge page all use \<open>id_key = "doc_id"\<close>.\<close>

definition id_key :: string where
  "id_key = ''doc_id''"

definition doc_with_id :: "string \<Rightarrow> string \<Rightarrow> document" where
  "doc_with_id content i = \<lparr>page_content = content, metadata = [(id_key, i)]\<rparr>"

lemma doc_with_id_sel [simp]:
  "page_content (doc_with_id c i) = c"
  "map_of (metadata (doc_with_id c i)) id_key = Some i"
  by (simp_all add: doc_with_id_def)

section \<open>The docstore\<close>

text \<open>
  \<open>LocalFileStore\<close> writes one file per key; \<open>mset\<close> writes the pairs in order
  (a later pair for the same key overwrites), \<open>mget\<close> reads a list of keys and
  gives \<open>None\<close> for a key with no file. The serialisation of
  \<open>create_kv_docstore\<close> is a round trip and is left out.
\<close>

type_synonym docstore = "string \<rightharpoonup> document"

definition docstore_mset :: "(string \<times> document) list \<Rightarrow> docstore \<Rightarrow> docstore" where
  "docstore_mset kvs ds = fold (\<lambda>(k, v) m. m(k \<mapsto> v)) kvs ds"

definition docstore_mget :: "string list \<Rightarrow> docstore \<Rightarrow> document option list" where
  "docstore_mget ks ds = map ds ks"

lemma fold_upd_map_add: "fold (\<lambda>(k, v) m. m(k \<mapsto> v)) kvs ds = ds ++ map_of (rev kvs)"
proof (induction kvs arbitrary: ds)
  case Nil
  then show ?case by simp
next
  case (Cons kv kvs)
  obtain a b where kv: "kv = (a, b)" by (cases kv)
  then have "fold (\<lambda>(k, v) m. m(k \<mapsto> v)) (kv # kvs) ds = fold (\<lambda>(k, v) m. m(k \<mapsto> v)) kvs (ds(a \<mapsto> b))"
    by simp
  also have "\<dots> = ds(a \<mapsto> b) ++ map_of (rev kvs)"
    by (rule Cons.IH)
  also have "\<dots> = ds ++ map_of (rev (kv # kvs))"
    using kv by (simp add: map_of_append map_add_upd [symmetric])
  finally show ?case .
qed

lemma docstore_mset_map_add: "docstore_mset kvs ds = ds ++ map_of (rev kvs)"
  by (simp add: docstore_mset_def fold_upd_map_add)

lemma docstore_mset_zip_distinct:
  "distinct ks \<Longrightarrow> docstore_mset (zip ks vs) ds = ds ++ map_of (zip ks vs)"
proof -
  assume "distinct ks"
  then have "distinct (map fst (zip ks vs))" by (simp add: map_fst_zip_take distinct_take)
  then show ?thesis by (simp add: docstore_mset_map_add map_of_rev_distinct)
qed

lemma dom_docstore_mset [simp]: "dom (docstore_mset kvs ds) = dom ds \<union> fst ` set kvs"
  by (auto simp: docstore_mset_map_add dom_map_of_conv_image_fst)

section \<open>The Chroma collection\<close>

text \<open>An embedding model as far as Chroma sees it: its name and its dimension.\<close>

record embedder =
  emb_name :: string
  emb_dim :: nat

text \<open>
  \<open>OllamaEmbeddings(model="mxbai-embed-large:latest")\<close> (the knowledge page, the
  main chat page and the maintenance page) gives 1024-dimensional vectors,
  \<open>OllamaEmbeddings(model="nomic-embed-text")\<close> (the local chat page and the
  retrieval test page) 768-dimensional ones.
\<close>

definition mxbai :: embedder where
  "mxbai = \<lparr>emb_name = ''mxbai-embed-large:latest'', emb_dim = 1024\<rparr>"

definition nomic :: embedder where
  "nomic = \<lparr>emb_name = ''nomic-embed-text'', emb_dim = 768\<rparr>"

record chroma_entry =
  entry_id :: string
  entry_doc :: document

text \<open>
  A collection is its entries in insertion order and the dimension fixed by the
  first write (\<open>None\<close> while it has never been written).
\<close>

record collection =
  entries :: "chroma_entry list"
  dimension :: "nat option"

definition empty_collection :: collection where
  "empty_collection = \<lparr>entries = [], dimension = None\<rparr>"

definition entry_ids :: "collection \<Rightarrow> string list" where
  "entry_ids c = map entry_id (entries c)"

definition check_dim :: "collection \<Rightarrow> nat \<Rightarrow> error + unit" where
  "check_dim c d = (case dimension c of None \<Rightarrow> Inr () | Some d' \<Rightarrow>
     if d' = d then Inr () else Inl (InvalidDimension d' d))"

lemma check_dim_ok [simp]: "dimension c = None \<or> dimension c = Some d \<Longrightarrow> check_dim c d = Inr ()"
  by (auto simp: check_dim_def)

lemma check_dim_Inr_iff [simp]: "check_dim c d = Inr u \<longleftrightarrow> dimension c = None \<or> dimension c = Some d"
  by (auto simp: check_dim_def split: option.splits)

text \<open>chromadb's \<open>upsert\<close> of one entry: replace the entry with the same id, or append.\<close>

definition upsert_entry :: "chroma_entry list \<Rightarrow> chroma_entry \<Rightarrow> chroma_entry list" where
  "upsert_entry es x =
     (if entry_id x \<in> set (map entry_id es)
      then map (\<lambda>e. if entry_id e = entry_id x then x else e) es
      else es @ [x])"

lemma upsert_entry_fresh [simp]:
  "entry_id x \<notin> set (map entry_id es) \<Longrightarrow> upsert_entry es x = es @ [x]"
  by (simp add: upsert_entry_def)

text \<open>
  \<open>Chroma.add_documents(docs)\<close>: one \<open>uuid4\<close> per document as its entry id,
  \<open>embed_documents\<close> of the contents, then \<open>collection.upsert\<close>. chromadb
  refuses an empty id list (\<open>ValueError: Expected IDs to be a non-empty list\<close>)
  and embeddings whose dimension differs from the collection's. The result is
  the new collection and the next index of the identifier generator.
\<close>

definition chroma_add_documents ::
  "embedder \<Rightarrow> document list \<Rightarrow> nat \<Rightarrow> collection \<Rightarrow> error + (collection \<times> nat)" where
  "chroma_add_documents emb docs n c =
     (let ids = uuids n (length docs) in
      if ids = [] then Inl (ValueError ''Expected IDs to be a non-empty list, got []'')
      else case check_dim c (emb_dim emb) of
        Inl e \<Rightarrow> Inl e
      | Inr _ \<Rightarrow> Inr (c\<lparr>entries := fold (\<lambda>x es. upsert_entry es x)
                          (map2 (\<lambda>i d. \<lparr>entry_id = i, entry_doc = d\<rparr>) ids docs) (entries c),
                         dimension := Some (emb_dim emb)\<rparr>, n + length docs))"

text \<open>
  \<open>similarity_search(query, k=4)\<close> (and \<open>similarity_search_with_relevance_scores\<close>
  with no \<open>score_threshold\<close>, which returns the same documents): the query is
  embedded with the page's embedder; a collection never written returns nothing;
  otherwise the dimensions must agree, and the \<open>k\<close> entries nearest to the
  query are returned, nearest first. Entries at the same distance keep
  insertion order.
\<close>

definition search_k :: nat where
  "search_k = 4"

definition chroma_similarity_search ::
  "embedder \<Rightarrow> (string \<Rightarrow> string \<Rightarrow> nat) \<Rightarrow> nat \<Rightarrow> string \<Rightarrow> collection \<Rightarrow> error + document list" where
  "chroma_similarity_search emb dist k q c =
     (case dimension c of
        None \<Rightarrow> Inr []
      | Some d \<Rightarrow> if d \<noteq> emb_dim emb then Inl (InvalidDimension d (emb_dim emb))
                 else Inr (map entry_doc (take k (sort_key (\<lambda>e. dist q (page_content (entry_doc e))) (entries c)))))"

text \<open>
  \<open>Chroma.update_document(document_id, document)\<close>: embeds the new content and
  calls \<open>collection.update\<close>, which checks the dimension (and sets it on a
  collection never written, as \<open>add\<close> does) and leaves the entries as they
  are (with a logged warning) when no entry has that id.
\<close>

definition chroma_update_document ::
  "embedder \<Rightarrow> string \<Rightarrow> document \<Rightarrow> collection \<Rightarrow> error + collection" where
  "chroma_update_document emb i d c =
     (case check_dim c (emb_dim emb) of
        Inl e \<Rightarrow> Inl e
      | Inr _ \<Rightarrow> Inr (c\<lparr>entries := map (\<lambda>e. if entry_id e = i then e\<lparr>entry_doc := d\<rparr> else e) (entries c),
                     dimension := Some (emb_dim emb)\<rparr>))"

section \<open>Lemmas on the Chroma operations\<close>

lemma fold_upsert_fresh:
  "distinct (map entry_id xs) \<Longrightarrow> set (map entry_id xs) \<inter> set (map entry_id es) = {} \<Longrightarrow>
   fold (\<lambda>x es. upsert_entry es x) xs es = es @ xs"
proof (induction xs arbitrary: es)
  case Nil
  then show ?case by simp
next
  case (Cons x xs)
  then have "fold (\<lambda>x es. upsert_entry es x) xs (es @ [x]) = (es @ [x]) @ xs"
    by (intro Cons.IH) auto
  with Cons.prems show ?case by simp
qed

lemma map_entry_id_map2 [simp]:
  "length ids = length docs \<Longrightarrow> map entry_id (map2 (\<lambda>i d. \<lparr>entry_id = i, entry_doc = d\<rparr>) ids docs) = ids"
  by (induction ids docs rule: list_induct2) simp_all

lemma map_entry_doc_map2 [simp]:
  "length ids = length docs \<Longrightarrow> map entry_doc (map2 (\<lambda>i d. \<lparr>entry_id = i, entry_doc = d\<rparr>) ids docs) = docs"
  by (induction ids docs rule: list_induct2) simp_all

text \<open>
  Generator indices at or above \<open>n\<close> have not named an entry yet: the
  freshness the code assumes of \<open>uuid4\<close>.
\<close>

definition ids_fresh_from :: "nat \<Rightarrow> string set \<Rightarrow> bool" where
  "ids_fresh_from n S \<longleftrightarrow> (\<forall>m \<ge> n. uuid4 m \<notin> S)"

lemma ids_fresh_from_uuids:
  "ids_fresh_from n S \<Longrightarrow> set (uuids n k) \<inter> S = {}"
  by (auto simp: ids_fresh_from_def set_uuids)

lemma ids_fresh_from_mono: "ids_fresh_from n S \<Longrightarrow> n \<le> n' \<Longrightarrow> ids_fresh_from n' S"
  by (simp add: ids_fresh_from_def)

lemma ids_fresh_from_union [simp]:
  "ids_fresh_from n (S \<union> T) \<longleftrightarrow> ids_fresh_from n S \<and> ids_fresh_from n T"
  by (auto simp: ids_fresh_from_def)

lemma ids_fresh_from_uuids_after [simp]: "ids_fresh_from (n + k) (set (uuids n k))"
  by (auto simp: ids_fresh_from_def)

lemma chroma_add_documents_Inr:
  assumes "chroma_add_documents emb docs n c = Inr (c', n')"
    and "ids_fresh_from n (set (entry_ids c))"
  shows "entries c' = entries c @ map2 (\<lambda>i d. \<lparr>entry_id = i, entry_doc = d\<rparr>) (uuids n (length docs)) docs"
    and "n' = n + length docs" and "docs \<noteq> []"
    and "dimension c' = Some (emb_dim emb)"
proof -
  have ne: "docs \<noteq> []" and d: "dimension c = None \<or> dimension c = Some (emb_dim emb)"
    and c': "c' = c\<lparr>entries := fold (\<lambda>x es. upsert_entry es x)
                  (map2 (\<lambda>i d. \<lparr>entry_id = i, entry_doc = d\<rparr>) (uuids n (length docs)) docs) (entries c),
                 dimension := Some (emb_dim emb)\<rparr>" and "n' = n + length docs"
    using assms(1) by (auto simp: chroma_add_documents_def Let_def split: if_splits sum.splits)
  let ?X = "map2 (\<lambda>i d. \<lparr>entry_id = i, entry_doc = d\<rparr>) (uuids n (length docs)) docs"
  have ids: "map entry_id ?X = uuids n (length docs)"
    by (rule map_entry_id_map2) simp
  have "distinct (map entry_id ?X)"
    unfolding ids by simp
  moreover have "set (map entry_id ?X) \<inter> set (map entry_id (entries c)) = {}"
    unfolding ids using ids_fresh_from_uuids [OF assms(2)] by (simp add: entry_ids_def)
  ultimately have "fold (\<lambda>x es. upsert_entry es x) ?X (entries c) = entries c @ ?X"
    by (rule fold_upsert_fresh)
  with c' show "entries c' = entries c @ ?X"
    by simp
  show "n' = n + length docs" "docs \<noteq> []" "dimension c' = Some (emb_dim emb)"
    using \<open>n' = n + length docs\<close> ne c' by simp_all
qed

lemma chroma_add_documents_ok:
  "docs \<noteq> [] \<Longrightarrow> dimension c = None \<or> dimension c = Some (emb_dim emb) \<Longrightarrow>
   \<exists>c'. chroma_add_documents emb docs n c = Inr (c', n + length docs)"
  by (auto simp: chroma_add_documents_def Let_def uuids_def)

lemma chroma_add_documents_Nil:
  "chroma_add_documents emb [] n c = Inl (ValueError ''Expected IDs to be a non-empty list, got []'')"
  by (simp add: chroma_add_documents_def uuids_def)

lemma chroma_similarity_search_Inr:
  assumes "chroma_similarity_search emb dist k q c = Inr ds"
  shows "set ds \<subseteq> entry_doc ` set (entries c)" and "length ds \<le> k"
  using assms
  by (auto simp: chroma_similarity_search_def split: option.splits if_splits dest!: in_set_takeD)

end
