(* ===== verification/Partition.thy ===== *)
theory Partition
  imports RAG_Prelude
begin

text \<open>
  The categorisation step of the knowledge page (\<open>src/pages/3Knowlage.py\<close>,
  lines 66 to 87): each element returned by \<open>partition_pdf\<close> is classified by a
  substring test on \<open>str(type(element))\<close>, tables keep their HTML rendering,
  narrative text, addresses, e-mail addresses and composite elements keep their
  text, and every other element is dropped. The two comprehensions at lines 86
  and 87 then split the result into tables and texts.
\<close>

section \<open>Partitioner output and the page's \<open>Element\<close> model\<close>

text \<open>
  An element of \<open>unstructured\<close> as far as the page reads it: the qualified name
  of its class, \<open>str(element)\<close>, and \<open>element.metadata.text_as_html\<close>
  (\<open>None\<close> when the partitioner inferred no table structure).
\<close>

record pdf_element =
  el_class :: string
  el_text :: string
  el_html :: "string option"

text \<open>\<open>class Element(BaseModel): type: str; page_content: Any\<close>\<close>

record element =
  el_type :: string
  el_content :: string

text \<open>\<open>str(type(x))\<close> is \<open><class 'module.Name'>\<close>; \<open>str(None)\<close> is \<open>None\<close>.\<close>

definition type_str :: "string \<Rightarrow> string" where
  "type_str cls = ''<class '' @ [CHR 0x27] @ cls @ [CHR 0x27] @ ''>''"

definition py_str_opt :: "string option \<Rightarrow> string" where
  "py_str_opt v = (case v of None \<Rightarrow> ''None'' | Some s \<Rightarrow> s)"

definition elements_module :: string where
  "elements_module = ''unstructured.documents.elements.''"

definition class_matches :: "string \<Rightarrow> pdf_element \<Rightarrow> bool" where
  "class_matches name e \<longleftrightarrow> py_in (elements_module @ name) (type_str (el_class e))"

section \<open>The categorisation loop\<close>

text \<open>One iteration of the \<open>for element in elements\<close> loop: the \<open>if\<close>/\<open>elif\<close> chain.\<close>

definition categorize_one :: "pdf_element \<Rightarrow> element option" where
  "categorize_one e =
     (if class_matches ''Table'' e
        then Some \<lparr>el_type = ''table'', el_content = py_str_opt (el_html e)\<rparr>
      else if class_matches ''NarrativeText'' e
        then Some \<lparr>el_type = ''text'', el_content = el_text e\<rparr>
      else if class_matches ''Address'' e
        then Some \<lparr>el_type = ''text'', el_content = el_text e\<rparr>
      else if class_matches ''EmailAddress'' e
        then Some \<lparr>el_type = ''text'', el_content = el_text e\<rparr>
      else if class_matches ''CompositeElement'' e
        then Some \<lparr>el_type = ''text'', el_content = el_text e\<rparr>
      else None)"

text \<open>The loop appends to \<open>categorized_elements\<close>, starting from the empty list.\<close>

fun categorize_loop :: "element list \<Rightarrow> pdf_element list \<Rightarrow> element list" where
  "categorize_loop acc [] = acc"
| "categorize_loop acc (e # es) =
     categorize_loop (case categorize_one e of None \<Rightarrow> acc | Some x \<Rightarrow> acc @ [x]) es"

definition categorize :: "pdf_element list \<Rightarrow> element list" where
  "categorize es = categorize_loop [] es"

text \<open>Lines 86 and 87.\<close>

definition table_elements :: "element list \<Rightarrow> element list" where
  "table_elements cs = [x \<leftarrow> cs. el_type x = ''table'']"

definition text_elements :: "element list \<Rightarrow> element list" where
  "text_elements cs = [x \<leftarrow> cs. el_type x = ''text'']"

section \<open>Lemmas\<close>

lemma categorize_loop_map_filter:
  "categorize_loop acc es = acc @ List.map_filter categorize_one es"
  by (induction acc es rule: categorize_loop.induct)
     (simp_all add: List.map_filter_simps split: option.splits)

lemma categorize_map_filter: "categorize es = List.map_filter categorize_one es"
  by (simp add: categorize_def categorize_loop_map_filter)

lemma categorize_one_type:
  "categorize_one e = Some x \<Longrightarrow> el_type x = ''table'' \<or> el_type x = ''text''"
  by (auto simp: categorize_one_def split: if_splits)

lemma categorize_one_table_iff:
  "categorize_one e = Some x \<Longrightarrow> el_type x = ''table'' \<longleftrightarrow> class_matches ''Table'' e"
  by (auto simp: categorize_one_def split: if_splits)

lemma categorize_one_content:
  "categorize_one e = Some x \<Longrightarrow>
   el_content x = (if class_matches ''Table'' e then py_str_opt (el_html e) else el_text e)"
  by (auto simp: categorize_one_def split: if_splits)

lemma categorize_one_None_iff:
  "categorize_one e = None \<longleftrightarrow>
   \<not> (\<exists>n \<in> set [''Table'', ''NarrativeText'', ''Address'', ''EmailAddress'', ''CompositeElement'']. class_matches n e)"
  by (auto simp: categorize_one_def)

lemma map_filter_table:
  "table_elements (List.map_filter categorize_one es) =
   map (\<lambda>e. \<lparr>el_type = ''table'', el_content = py_str_opt (el_html e)\<rparr>) [e \<leftarrow> es. class_matches ''Table'' e]"
  by (induction es) (auto simp: table_elements_def List.map_filter_simps categorize_one_def)

lemma map_filter_text:
  "text_elements (List.map_filter categorize_one es) =
   map (\<lambda>e. \<lparr>el_type = ''text'', el_content = el_text e\<rparr>)
     [e \<leftarrow> es. \<not> class_matches ''Table'' e \<and> categorize_one e \<noteq> None]"
  by (induction es) (auto simp: text_elements_def List.map_filter_simps categorize_one_def)

lemma length_table_text:
  "length (table_elements cs) + length (text_elements cs) = length cs"
  if "\<forall>x \<in> set cs. el_type x = ''table'' \<or> el_type x = ''text''"
  using that by (induction cs) (auto simp: table_elements_def text_elements_def)

text \<open>
  C6. The tables the page summarises are exactly the elements whose class name
  contains \<open>unstructured.documents.elements.Table\<close>, in document order, each
  represented by \<open>str(metadata.text_as_html)\<close> (the string \<open>None\<close> when the
  partitioner inferred no HTML).
\<close>

theorem categorize_tables:
  "table_elements (categorize es) =
   map (\<lambda>e. \<lparr>el_type = ''table'', el_content = py_str_opt (el_html e)\<rparr>) [e \<leftarrow> es. class_matches ''Table'' e]"
  by (simp add: categorize_map_filter map_filter_table)

lemma set_categorize_typed: "x \<in> set (categorize es) \<Longrightarrow> el_type x = ''table'' \<or> el_type x = ''text''"
proof -
  assume "x \<in> set (categorize es)"
  then have "\<exists>e \<in> set es. categorize_one e = Some x"
    unfolding categorize_map_filter by (induction es) (auto simp: List.map_filter_simps split: option.splits)
  then show ?thesis using categorize_one_type by blast
qed

text \<open>
  C21. Every categorised element is typed \<open>table\<close> or \<open>text\<close>, so the two
  comprehensions of lines 86 and 87 partition the categorised list, which has
  at most one entry per partitioner element.
\<close>

theorem categorize_typed:
  "(\<forall>x \<in> set (categorize es). el_type x = ''table'' \<or> el_type x = ''text'')
   \<and> length (table_elements (categorize es)) + length (text_elements (categorize es)) = length (categorize es)
   \<and> length (categorize es) \<le> length es"
proof -
  have typed: "\<forall>x \<in> set (categorize es). el_type x = ''table'' \<or> el_type x = ''text''"
    using set_categorize_typed by blast
  moreover have "length (categorize es) \<le> length es"
    by (simp add: categorize_map_filter length_map_filter_le)
  ultimately show ?thesis using length_table_text [OF typed] by blast
qed

definition sample_elements :: "pdf_element list" where
  "sample_elements = [\<lparr>el_class = ''unstructured.documents.elements.Title'', el_text = ''T'', el_html = None\<rparr>,
                      \<lparr>el_class = ''unstructured.documents.elements.Table'', el_text = ''t'', el_html = None\<rparr>]"

theorem categorize_typed_witness:
  "categorize sample_elements = [\<lparr>el_type = ''table'', el_content = ''None''\<rparr>]
   \<and> length (table_elements (categorize sample_elements)) + length (text_elements (categorize sample_elements)) = 1
   \<and> length (categorize sample_elements) \<le> 2"
proof -
  have c: "categorize sample_elements = [\<lparr>el_type = ''table'', el_content = ''None''\<rparr>]"
    by (simp add: sample_elements_def categorize_def categorize_one_def class_matches_def type_str_def
        elements_module_def py_str_opt_def)
  have l: "length sample_elements = 2" by (simp add: sample_elements_def)
  show ?thesis using categorize_typed [of sample_elements] c l by simp
qed

end
