(* ===== verification/Ingest.thy ===== *)
theory Ingest
  imports Stores Partition
begin

text \<open>
  The knowledge page (\<open>src/pages/3Knowlage.py\<close>, lines 47 to 147): an uploaded
  PDF is saved under \<open>pdfFiles/\<close>, partitioned, categorised, every table and
  every text element is summarised by the Groq model, and then, per group, the
  originals are written to the docstore under fresh identifiers and documents
  carrying the same identifiers are added to the Chroma collection. The state is
  the upload folder, the two stores and the identifier generator; the
  partitioner and the summary chain are parameters that may fail.
\<close>

section \<open>State and services\<close>

record kb_state =
  pdf_files :: "string \<rightharpoonup> string"
  docstore :: docstore
  vectordb :: collection
  uuid_next :: nat

definition kb_init :: kb_state where
  "kb_init = \<lparr>pdf_files = Map.empty, docstore = Map.empty, vectordb = empty_collection, uuid_next = 0\<rparr>"

text \<open>
  \<open>partition_pdf(filename=pdf_path, ...)\<close> reads the saved bytes and returns the
  elements or raises; the summary chain (prompt, \<open>ChatGroq\<close>, \<open>StrOutputParser\<close>)
  maps one content string to one summary or raises.
\<close>

type_synonym partitioner = "string \<Rightarrow> error + pdf_element list"
type_synonym summarizer = "string \<Rightarrow> error + string"

text \<open>
  \<open>Runnable.batch(inputs, {"max_concurrency": 5})\<close>: the results in input order;
  the calls run in a thread pool and the results are collected in order, so the
  exception that propagates is the one of the first failing input.
\<close>

fun batch :: "('a \<Rightarrow> error + 'b) \<Rightarrow> 'a list \<Rightarrow> error + 'b list" where
  "batch f [] = Inr []"
| "batch f (x # xs) =
     (case f x of
        Inl e \<Rightarrow> Inl e
      | Inr y \<Rightarrow> (case batch f xs of Inl e \<Rightarrow> Inl e | Inr ys \<Rightarrow> Inr (y # ys)))"

section \<open>The page\<close>

definition pdf_path :: "string \<Rightarrow> string" where
  "pdf_path name = ''pdfFiles/'' @ name"

text \<open>
  Lines 130 to 135 (and 140 to 145): one \<open>uuid4\<close> per element, the originals
  as documents carrying their identifier, \<open>docstore.mset\<close> of the pairs. The
  result is the identifiers, the originals and the new state.
\<close>

definition store_originals :: "element list \<Rightarrow> kb_state \<Rightarrow> string list \<times> document list \<times> kb_state" where
  "store_originals els s =
     (let doc_ids = uuids (uuid_next s) (length els);
          asli = map2 (\<lambda>e i. doc_with_id (el_content e) i) els doc_ids
      in (doc_ids, asli,
          s\<lparr>uuid_next := uuid_next s + length els,
            docstore := docstore_mset (zip doc_ids asli) (docstore s)\<rparr>))"

text \<open>Lines 132 and 142: the summaries as documents carrying the element's identifier.\<close>

definition summary_docs :: "string list \<Rightarrow> string list \<Rightarrow> document list" where
  "summary_docs summaries doc_ids = map2 doc_with_id summaries doc_ids"

text \<open>\<open>retriever.vectorstore.add_documents(docs)\<close> on the page's collection (mxbai embeddings).\<close>

definition add_to_vectorstore :: "document list \<Rightarrow> kb_state \<Rightarrow> kb_state run" where
  "add_to_vectorstore docs s =
     (case chroma_add_documents mxbai docs (uuid_next s) (vectordb s) of
        Inl e \<Rightarrow> Raised e s
      | Inr (c, n) \<Rightarrow> Done (s\<lparr>vectordb := c, uuid_next := n\<rparr>))"

text \<open>Lines 129 to 137: tables, with their summaries indexed.\<close>

definition index_tables :: "element list \<Rightarrow> string list \<Rightarrow> kb_state \<Rightarrow> kb_state run" where
  "index_tables tables summaries s =
     (let (doc_ids, asli, s1) = store_originals tables s;
          summ = summary_docs summaries doc_ids
      in add_to_vectorstore summ s1)"

text \<open>
  Lines 139 to 147: texts. The summary documents are built (line 142) but the
  call at line 147 adds \<open>text_documents_asli\<close>, the originals.
\<close>

definition index_texts :: "element list \<Rightarrow> string list \<Rightarrow> kb_state \<Rightarrow> kb_state run" where
  "index_texts texts summaries s =
     (let (doc_ids, asli, s1) = store_originals texts s;
          summ = summary_docs summaries doc_ids
      in add_to_vectorstore asli s1)"

text \<open>Lines 51 to 147, once the upload is known to be new.\<close>

definition embed_file :: "partitioner \<Rightarrow> summarizer \<Rightarrow> string \<Rightarrow> string \<Rightarrow> kb_state \<Rightarrow> kb_state run" where
  "embed_file partition_pdf summarize name bytes s =
     (let s0 = s\<lparr>pdf_files := (pdf_files s)(pdf_path name \<mapsto> bytes)\<rparr> in
      case partition_pdf bytes of
        Inl e \<Rightarrow> Raised e s0
      | Inr elements \<Rightarrow>
          (let cats = categorize elements;
               tables = table_elements cats;
               texts = text_elements cats
           in case batch summarize (map el_content tables) of
                Inl e \<Rightarrow> Raised e s0
              | Inr tables_summaries \<Rightarrow>
                  (case batch summarize (map el_content texts) of
                     Inl e \<Rightarrow> Raised e s0
                   | Inr text_summaries \<Rightarrow>
                       run_then (index_tables tables tables_summaries s0)
                                (index_texts texts text_summaries))))"

text \<open>Lines 47 to 50: nothing happens without an upload or when the file name exists.\<close>

definition knowledge_page ::
  "partitioner \<Rightarrow> summarizer \<Rightarrow> (string \<times> string) option \<Rightarrow> kb_state \<Rightarrow> kb_state run" where
  "knowledge_page partition_pdf summarize upload s =
     (case upload of
        None \<Rightarrow> Done s
      | Some (name, bytes) \<Rightarrow>
          if pdf_path name \<in> dom (pdf_files s) then Done s
          else embed_file partition_pdf summarize name bytes s)"

section \<open>The join invariant\<close>

text \<open>
  The retriever joins a vector hit to its original through the \<open>doc_id\<close> in the
  hit's metadata. The invariant says that every entry of the collection that
  carries a \<open>doc_id\<close> names a document of the docstore, and that the identifier
  generator has not yet produced any key or entry id in use.
\<close>

definition entry_doc_id :: "chroma_entry \<Rightarrow> string option" where
  "entry_doc_id e = map_of (metadata (entry_doc e)) id_key"

definition joins :: "docstore \<Rightarrow> collection \<Rightarrow> bool" where
  "joins ds c \<longleftrightarrow> (\<forall>e \<in> set (entries c). \<forall>i. entry_doc_id e = Some i \<longrightarrow> i \<in> dom ds)"

definition kb_inv :: "kb_state \<Rightarrow> bool" where
  "kb_inv s \<longleftrightarrow> joins (docstore s) (vectordb s) \<and>
     ids_fresh_from (uuid_next s) (dom (docstore s) \<union> set (entry_ids (vectordb s)))"

text \<open>
  The abstract view of the knowledge base the retriever works on: for every
  entry of the collection, the indexed text and the original content its
  \<open>doc_id\<close> joins to (\<open>None\<close> when the join fails).
\<close>

definition kb_pairs :: "kb_state \<Rightarrow> (string \<times> string option) list" where
  "kb_pairs s = map (\<lambda>e. (page_content (entry_doc e),
      map_option page_content (Option.bind (entry_doc_id e) (docstore s)))) (entries (vectordb s))"

section \<open>Lemmas\<close>

lemma batch_Inr:
  "batch f xs = Inr ys \<Longrightarrow> list_all2 (\<lambda>x y. f x = Inr y) xs ys"
  by (induction xs arbitrary: ys) (auto split: sum.splits)

lemma batch_length: "batch f xs = Inr ys \<Longrightarrow> length ys = length xs"
  using batch_Inr list_all2_lengthD by metis

lemma batch_all_ok: "(\<forall>x \<in> set xs. f x = Inr (g x)) \<Longrightarrow> batch f xs = Inr (map g xs)"
  by (induction xs) auto

lemma store_originals_eq:
  "store_originals els s =
     (uuids (uuid_next s) (length els),
      map2 (\<lambda>e i. doc_with_id (el_content e) i) els (uuids (uuid_next s) (length els)),
      s\<lparr>uuid_next := uuid_next s + length els,
        docstore := docstore s ++ map_of (zip (uuids (uuid_next s) (length els))
                       (map2 (\<lambda>e i. doc_with_id (el_content e) i) els (uuids (uuid_next s) (length els))))\<rparr>)"
  by (simp add: store_originals_def Let_def docstore_mset_zip_distinct)

lemma entry_doc_id_map2:
  "(\<forall>d \<in> set docs. \<exists>i. map_of (metadata d) id_key = Some i \<and> i \<in> S) \<Longrightarrow>
   e \<in> set (map2 (\<lambda>i d. \<lparr>entry_id = i, entry_doc = d\<rparr>) ids docs) \<Longrightarrow> entry_doc_id e = Some j \<Longrightarrow> j \<in> S"
  by (fastforce simp: entry_doc_id_def dest!: set_zip_rightD)

lemma map2_doc_with_id_ids:
  "d \<in> set (map2 (\<lambda>x i. doc_with_id (f x) i) xs ids) \<Longrightarrow> \<exists>i \<in> set ids. map_of (metadata d) id_key = Some i"
  by (auto dest: set_zip_rightD)

lemma summary_docs_ids:
  "d \<in> set (summary_docs xs ids) \<Longrightarrow> \<exists>i \<in> set ids. map_of (metadata d) id_key = Some i"
  by (auto simp: summary_docs_def dest: set_zip_rightD)

lemma kb_inv_pdf_files [simp]: "kb_inv (s\<lparr>pdf_files := f\<rparr>) \<longleftrightarrow> kb_inv s"
  by (simp add: kb_inv_def)

lemma joins_mono: "joins ds c \<Longrightarrow> dom ds \<subseteq> dom ds' \<Longrightarrow> joins ds' c"
  unfolding joins_def by blast

lemma asli_summary_docs:
  "map2 (\<lambda>e i. doc_with_id (el_content e) i) els ids = summary_docs (map el_content els) ids"
  by (simp add: summary_docs_def zip_map1 case_prod_beta)

lemma store_originals_facts:
  assumes "store_originals els s = (ids, asli, s1)"
  shows "ids = uuids (uuid_next s) (length els)"
    and "asli = summary_docs (map el_content els) ids"
    and "docstore s1 = docstore s ++ map_of (zip ids asli)"
    and "vectordb s1 = vectordb s" and "uuid_next s1 = uuid_next s + length els"
    and "dom (docstore s1) = dom (docstore s) \<union> set ids"
proof -
  have len: "length (summary_docs (map el_content els) (uuids (uuid_next s) (length els))) = length els"
    by (simp add: summary_docs_def)
  show "ids = uuids (uuid_next s) (length els)"
    and "asli = summary_docs (map el_content els) ids"
    and "docstore s1 = docstore s ++ map_of (zip ids asli)"
    and "vectordb s1 = vectordb s" and "uuid_next s1 = uuid_next s + length els"
    using assms by (auto simp: store_originals_eq asli_summary_docs)
  then show "dom (docstore s1) = dom (docstore s) \<union> set ids"
    using len by (simp add: dom_map_add Un_commute)
qed

lemma store_originals_inv:
  assumes "kb_inv s" and "store_originals els s = (ids, asli, s1)"
  shows "kb_inv s1"
proof -
  note f = store_originals_facts [OF assms(2)]
  have "joins (docstore s1) (vectordb s1)"
    using assms(1) f(4,6) by (auto simp: kb_inv_def intro: joins_mono)
  moreover have "ids_fresh_from (uuid_next s1) (dom (docstore s1) \<union> set (entry_ids (vectordb s1)))"
    using assms(1) f(1,4,5,6) by (auto simp: kb_inv_def intro: ids_fresh_from_mono)
  ultimately show ?thesis by (simp add: kb_inv_def)
qed

lemma add_to_vectorstore_inv:
  assumes "kb_inv s"
    and "\<forall>d \<in> set docs. \<exists>i. map_of (metadata d) id_key = Some i \<and> i \<in> dom (docstore s)"
  shows "kb_inv (run_state (add_to_vectorstore docs s))"
proof (cases "chroma_add_documents mxbai docs (uuid_next s) (vectordb s)")
  case (Inl e)
  with assms(1) show ?thesis by (simp add: add_to_vectorstore_def)
next
  case (Inr r)
  obtain c n where r: "r = (c, n)" by (cases r)
  have fresh: "ids_fresh_from (uuid_next s) (set (entry_ids (vectordb s)))"
    using assms(1) by (simp add: kb_inv_def)
  note add = chroma_add_documents_Inr [OF Inr [unfolded r] fresh]
  have "joins (docstore s) c"
    unfolding joins_def
  proof (intro ballI allI impI)
    fix e i
    assume e: "e \<in> set (entries c)" and i: "entry_doc_id e = Some i"
    from e add(1) consider "e \<in> set (entries (vectordb s))"
      | "e \<in> set (map2 (\<lambda>i d. \<lparr>entry_id = i, entry_doc = d\<rparr>) (uuids (uuid_next s) (length docs)) docs)"
      by (metis Un_iff set_append)
    then show "i \<in> dom (docstore s)"
    proof cases
      case 1
      with assms(1) i show ?thesis by (auto simp: kb_inv_def joins_def)
    next
      case 2
      from entry_doc_id_map2 [OF assms(2) this i] show ?thesis .
    qed
  qed
  moreover have "entry_ids c = entry_ids (vectordb s) @ uuids (uuid_next s) (length docs)"
    unfolding entry_ids_def add(1) map_append by (subst map_entry_id_map2) simp_all
  then have "ids_fresh_from n (dom (docstore s) \<union> set (entry_ids c))"
    using assms(1) add(2) by (auto simp: kb_inv_def intro: ids_fresh_from_mono)
  ultimately show ?thesis
    using Inr r by (simp add: add_to_vectorstore_def kb_inv_def)
qed

lemma add_group_inv:
  assumes "kb_inv s" and so: "store_originals els s = (ids, asli, s1)"
  shows "kb_inv (run_state (add_to_vectorstore (summary_docs C ids) s1))"
proof (rule add_to_vectorstore_inv)
  show "kb_inv s1" using store_originals_inv [OF assms] .
  show "\<forall>d \<in> set (summary_docs C ids). \<exists>i. map_of (metadata d) id_key = Some i \<and> i \<in> dom (docstore s1)"
    using summary_docs_ids [of _ C ids] store_originals_facts(6) [OF so] by blast
qed

lemma index_tables_inv: "kb_inv s \<Longrightarrow> kb_inv (run_state (index_tables tables summaries s))"
  by (cases "store_originals tables s") (auto simp: index_tables_def intro: add_group_inv)

lemma index_texts_inv: "kb_inv s \<Longrightarrow> kb_inv (run_state (index_texts texts summaries s))"
proof (cases "store_originals texts s")
  case (fields ids asli s1)
  assume "kb_inv s"
  then show ?thesis
    using add_group_inv [OF _ fields, of "map el_content texts"] store_originals_facts(2) [OF fields]
    by (simp add: index_texts_def fields)
qed

lemma run_then_inv:
  "P (run_state r) \<Longrightarrow> (\<And>s. P s \<Longrightarrow> P (run_state (f s))) \<Longrightarrow> P (run_state (run_then r f))"
  by (cases r) auto

lemma embed_file_inv:
  assumes "kb_inv s"
  shows "kb_inv (run_state (embed_file P S name bytes s))"
proof -
  let ?s0 = "s\<lparr>pdf_files := (pdf_files s)(pdf_path name \<mapsto> bytes)\<rparr>"
  have s0: "kb_inv ?s0" using assms by simp
  have groups: "kb_inv (run_state (run_then (index_tables tables ts ?s0) (index_texts texts xs)))"
    for tables ts texts xs
    by (rule run_then_inv [where P = kb_inv]) (rule index_tables_inv [OF s0], erule index_texts_inv)
  show ?thesis
    unfolding embed_file_def Let_def
    by (simp add: assms groups split: sum.split)
qed

theorem knowledge_page_inv: "kb_inv s \<Longrightarrow> kb_inv (run_state (knowledge_page P S upload s))"
  by (auto simp: knowledge_page_def embed_file_inv split: option.splits)

lemma kb_inv_init: "kb_inv kb_init"
  by (simp add: kb_inv_def kb_init_def joins_def empty_collection_def entry_ids_def ids_fresh_from_def)

text \<open>
  The collection's dimension is unset or that of mxbai: the knowledge page
  writes vectors only through \<open>add_documents\<close> with mxbai embeddings.
\<close>

definition mxbai_dim :: "kb_state \<Rightarrow> bool" where
  "mxbai_dim s \<longleftrightarrow> dimension (vectordb s) = None \<or> dimension (vectordb s) = Some (emb_dim mxbai)"

lemma add_to_vectorstore_dim: "mxbai_dim s \<Longrightarrow> mxbai_dim (run_state (add_to_vectorstore docs s))"
  by (auto simp: add_to_vectorstore_def chroma_add_documents_def mxbai_dim_def Let_def split: sum.splits if_splits)

lemma index_tables_dim: "mxbai_dim s \<Longrightarrow> mxbai_dim (run_state (index_tables tables summaries s))"
  by (cases "store_originals tables s")
     (auto simp: index_tables_def mxbai_dim_def dest!: store_originals_facts(4)
           intro!: add_to_vectorstore_dim [unfolded mxbai_dim_def])

lemma index_texts_dim: "mxbai_dim s \<Longrightarrow> mxbai_dim (run_state (index_texts texts summaries s))"
  by (cases "store_originals texts s")
     (auto simp: index_texts_def mxbai_dim_def dest!: store_originals_facts(4)
           intro!: add_to_vectorstore_dim [unfolded mxbai_dim_def])

lemma knowledge_page_dim: "mxbai_dim s \<Longrightarrow> mxbai_dim (run_state (knowledge_page P S upload s))"
proof -
  assume s: "mxbai_dim s"
  have "mxbai_dim (run_state (embed_file P S name bytes s))" for name bytes
  proof -
    let ?s0 = "s\<lparr>pdf_files := (pdf_files s)(pdf_path name \<mapsto> bytes)\<rparr>"
    have s0: "mxbai_dim ?s0" using s by (simp add: mxbai_dim_def)
    have "mxbai_dim (run_state (run_then (index_tables tables ts ?s0) (index_texts texts xs)))"
      for tables ts texts xs
      by (rule run_then_inv [where P = mxbai_dim]) (rule index_tables_dim [OF s0], erule index_texts_dim)
    with s0 show ?thesis unfolding embed_file_def Let_def by (simp split: sum.split)
  qed
  with s show ?thesis by (auto simp: knowledge_page_def split: option.splits)
qed

lemma add_to_vectorstore_Done:
  assumes "add_to_vectorstore docs s = Done s'" and "kb_inv s"
  shows "entries (vectordb s') = entries (vectordb s) @
           map2 (\<lambda>i d. \<lparr>entry_id = i, entry_doc = d\<rparr>) (uuids (uuid_next s) (length docs)) docs"
    and "docstore s' = docstore s" and "docs \<noteq> []"
proof -
  obtain c n where add: "chroma_add_documents mxbai docs (uuid_next s) (vectordb s) = Inr (c, n)"
    and s': "s' = s\<lparr>vectordb := c, uuid_next := n\<rparr>"
    using assms(1) by (auto simp: add_to_vectorstore_def split: sum.splits)
  have "ids_fresh_from (uuid_next s) (set (entry_ids (vectordb s)))"
    using assms(2) by (simp add: kb_inv_def)
  note r = chroma_add_documents_Inr [OF add this]
  show "entries (vectordb s') = entries (vectordb s) @
           map2 (\<lambda>i d. \<lparr>entry_id = i, entry_doc = d\<rparr>) (uuids (uuid_next s) (length docs)) docs"
    using r(1) s' by simp
  show "docstore s' = docstore s" "docs \<noteq> []" using s' r(3) by simp_all
qed

lemma new_pairs:
  assumes len: "length C = length els" "length ids = length els" "length eids = length els"
    and D: "\<forall>k < length els. D (ids ! k) = Some (doc_with_id (el_content (els ! k)) (ids ! k))"
  shows "map (\<lambda>e. (page_content (entry_doc e), map_option page_content (Option.bind (entry_doc_id e) D)))
           (map2 (\<lambda>i d. \<lparr>entry_id = i, entry_doc = d\<rparr>) eids (summary_docs C ids))
         = zip C (map (\<lambda>e. Some (el_content e)) els)"
proof (rule nth_equalityI)
  show "length (map (\<lambda>e. (page_content (entry_doc e), map_option page_content (Option.bind (entry_doc_id e) D)))
           (map2 (\<lambda>i d. \<lparr>entry_id = i, entry_doc = d\<rparr>) eids (summary_docs C ids)))
        = length (zip C (map (\<lambda>e. Some (el_content e)) els))"
    using len by (simp add: summary_docs_def)
next
  fix k
  assume "k < length (map (\<lambda>e. (page_content (entry_doc e), map_option page_content (Option.bind (entry_doc_id e) D)))
           (map2 (\<lambda>i d. \<lparr>entry_id = i, entry_doc = d\<rparr>) eids (summary_docs C ids)))"
  then have k: "k < length els" using len by (simp add: summary_docs_def)
  then show "map (\<lambda>e. (page_content (entry_doc e), map_option page_content (Option.bind (entry_doc_id e) D)))
           (map2 (\<lambda>i d. \<lparr>entry_id = i, entry_doc = d\<rparr>) eids (summary_docs C ids)) ! k
        = zip C (map (\<lambda>e. Some (el_content e)) els) ! k"
    using len D by (simp add: summary_docs_def entry_doc_id_def)
qed

lemma group_pairs:
  assumes inv: "kb_inv s" and so: "store_originals els s = (ids, asli, s1)"
    and add: "add_to_vectorstore (summary_docs C ids) s1 = Done s2"
    and len: "length C = length els"
  shows "kb_pairs s2 = kb_pairs s @ zip C (map (\<lambda>e. Some (el_content e)) els)"
proof -
  note f = store_originals_facts [OF so]
  note d = add_to_vectorstore_Done [OF add store_originals_inv [OF inv so]]
  let ?D = "docstore s ++ map_of (zip ids asli)"
  have ds2: "docstore s2 = ?D" using d(2) f(3) by simp
  have fresh: "set ids \<inter> dom (docstore s) = {}"
    using inv f(1) ids_fresh_from_uuids [of "uuid_next s" "dom (docstore s)"] by (auto simp: kb_inv_def)
  have lenasli: "length asli = length ids" using f(1,2) by (simp add: summary_docs_def)
  have old: "Option.bind (entry_doc_id e) ?D = Option.bind (entry_doc_id e) (docstore s)"
    if "e \<in> set (entries (vectordb s))" for e
  proof (cases "entry_doc_id e")
    case (Some i)
    with inv that have "i \<in> dom (docstore s)" by (auto simp: kb_inv_def joins_def)
    with fresh have "i \<notin> set ids" by blast
    with lenasli have "map_of (zip ids asli) i = None" by (simp add: map_of_zip_is_None)
    with Some show ?thesis by (simp add: map_add_def)
  qed simp
  have new: "\<forall>k < length els. ?D (ids ! k) = Some (doc_with_id (el_content (els ! k)) (ids ! k))"
  proof (intro allI impI)
    fix k assume k: "k < length els"
    have "map_of (zip ids asli) (ids ! k) = Some (asli ! k)"
      using k f(1) lenasli by (intro map_of_zip_distinct_nth) simp_all
    moreover have "asli ! k = doc_with_id (el_content (els ! k)) (ids ! k)"
      using k f(1,2) by (simp add: summary_docs_def)
    ultimately show "?D (ids ! k) = Some (doc_with_id (el_content (els ! k)) (ids ! k))" by simp
  qed
  have lensum: "length (summary_docs C ids) = length els"
    using len f(1) by (simp add: summary_docs_def)
  have ents: "entries (vectordb s2) = entries (vectordb s) @
          map2 (\<lambda>i d. \<lparr>entry_id = i, entry_doc = d\<rparr>) (uuids (uuid_next s1) (length els)) (summary_docs C ids)"
    using d(1) f(4) lensum by simp
  let ?g = "\<lambda>D e. (page_content (entry_doc e), map_option page_content (Option.bind (entry_doc_id e) D))"
  have np: "map (?g ?D) (map2 (\<lambda>i d. \<lparr>entry_id = i, entry_doc = d\<rparr>) (uuids (uuid_next s1) (length els)) (summary_docs C ids))
      = zip C (map (\<lambda>e. Some (el_content e)) els)"
    by (rule new_pairs [OF len _ _ new]) (simp_all add: f(1))
  have op: "map (?g ?D) (entries (vectordb s)) = map (?g (docstore s)) (entries (vectordb s))"
    using old by simp
  show ?thesis
    unfolding kb_pairs_def ds2 ents map_append np op by simp
qed

lemma kb_pairs_pdf_files [simp]: "kb_pairs (s\<lparr>pdf_files := f\<rparr>) = kb_pairs s"
  by (simp add: kb_pairs_def)

lemma index_tables_pairs:
  assumes "kb_inv s" and "index_tables tables ts s = Done s'" and "length ts = length tables"
  shows "kb_pairs s' = kb_pairs s @ zip ts (map (\<lambda>e. Some (el_content e)) tables)"
proof (cases "store_originals tables s")
  case (fields ids asli s1)
  with assms(2) have "add_to_vectorstore (summary_docs ts ids) s1 = Done s'"
    by (simp add: index_tables_def)
  from group_pairs [OF assms(1) fields this assms(3)] show ?thesis .
qed

lemma index_texts_pairs:
  assumes "kb_inv s" and "index_texts texts xs s = Done s'"
  shows "kb_pairs s' = kb_pairs s @ map (\<lambda>e. (el_content e, Some (el_content e))) texts"
proof (cases "store_originals texts s")
  case (fields ids asli s1)
  with assms(2) store_originals_facts(2) [OF fields]
  have "add_to_vectorstore (summary_docs (map el_content texts) ids) s1 = Done s'"
    by (simp add: index_texts_def)
  from group_pairs [OF assms(1) fields this] show ?thesis
    by (simp add: zip_map_map zip_same_conv_map)
qed

lemma index_tables_Done_inv:
  "kb_inv s \<Longrightarrow> index_tables tables ts s = Done s' \<Longrightarrow> kb_inv s'"
  using index_tables_inv [of s tables ts] by simp

text \<open>
  C1. A successful upload of a new file extends the knowledge base, entry by
  entry in order, with one pair per table (its summary, joined to its HTML) and
  then one pair per text element (its original text, joined to itself): the text
  summaries computed by the page are never indexed.
\<close>

theorem knowledge_page_indexes:
  assumes inv: "kb_inv s"
    and new: "pdf_path name \<notin> dom (pdf_files s)"
    and part: "P bytes = Inr els"
    and tab: "batch S (map el_content (table_elements (categorize els))) = Inr ts"
    and ok: "knowledge_page P S (Some (name, bytes)) s = Done s'"
  shows "kb_pairs s' = kb_pairs s
           @ zip ts (map (\<lambda>e. Some (el_content e)) (table_elements (categorize els)))
           @ map (\<lambda>e. (el_content e, Some (el_content e))) (text_elements (categorize els))"
proof -
  let ?s0 = "s\<lparr>pdf_files := (pdf_files s)(pdf_path name \<mapsto> bytes)\<rparr>"
  let ?tables = "table_elements (categorize els)" and ?texts = "text_elements (categorize els)"
  obtain xs where texts_ok: "batch S (map el_content ?texts) = Inr xs"
    using ok new part tab by (auto simp: knowledge_page_def embed_file_def Let_def split: sum.splits)
  then have "run_then (index_tables ?tables ts ?s0) (index_texts ?texts xs) = Done s'"
    using ok new part tab by (simp add: knowledge_page_def embed_file_def Let_def)
  then obtain s1 where t: "index_tables ?tables ts ?s0 = Done s1" and x: "index_texts ?texts xs s1 = Done s'"
    by auto
  have inv0: "kb_inv ?s0" using inv by simp
  have "length ts = length ?tables" using batch_length [OF tab] by simp
  from index_tables_pairs [OF inv0 t this] have p1: "kb_pairs s1 = kb_pairs s @ zip ts (map (\<lambda>e. Some (el_content e)) ?tables)"
    by simp
  from index_texts_pairs [OF index_tables_Done_inv [OF inv0 t] x] p1 show ?thesis by simp
qed

lemma embed_file_records_file:
  "pdf_path name \<in> dom (pdf_files (run_state (embed_file P S name bytes s)))"
proof -
  have step: "pdf_files (run_state (index_tables a b s1)) = pdf_files s1"
    "pdf_files (run_state (index_texts a b s1)) = pdf_files s1" for a b s1
    by (cases "store_originals a s1";
        auto simp: index_tables_def index_texts_def add_to_vectorstore_def store_originals_def Let_def split: sum.splits)+
  have "pdf_files (run_state (run_then (index_tables a b s1) (index_texts c d))) = pdf_files s1" for a b c d s1
  proof (cases "index_tables a b s1")
    case (Done t)
    with step(1) [of a b s1] step(2) [of c d t] show ?thesis by simp
  next
    case (Raised e t)
    with step(1) [of a b s1] show ?thesis by simp
  qed
  then show ?thesis
    by (simp add: embed_file_def Let_def split: sum.split)
qed

text \<open>
  C5. An upload that raised (partitioner, summariser or Chroma error) leaves the
  file saved under \<open>pdfFiles/\<close>, so every later upload under the same name,
  with any content, does nothing: the document can never be indexed by retrying.
\<close>

theorem knowledge_page_failed_upload_blocks:
  assumes "knowledge_page P S (Some (name, bytes)) s = Raised e s'"
  shows "knowledge_page P' S' (Some (name, bytes')) s' = Done s'"
proof -
  have "pdf_path name \<in> dom (pdf_files s')"
  proof (cases "pdf_path name \<in> dom (pdf_files s)")
    case True
    with assms show ?thesis by (simp add: knowledge_page_def)
  next
    case False
    with assms have "embed_file P S name bytes s = Raised e s'" by (simp add: knowledge_page_def)
    with embed_file_records_file [of name P S bytes s] show ?thesis by simp
  qed
  then show ?thesis by (simp add: knowledge_page_def)
qed

lemma store_originals_Nil: "store_originals [] s = ([], [], s)"
  by (simp add: store_originals_def docstore_mset_def)

text \<open>
  C4. A new PDF whose elements contain no table aborts at the table step: Chroma
  refuses the empty \<open>add_documents([])\<close> with a \<open>ValueError\<close>, before
  any text element is written; the docstore and the collection are unchanged and
  only the file is saved.
\<close>

theorem knowledge_page_no_tables:
  assumes new: "pdf_path name \<notin> dom (pdf_files s)"
    and part: "P bytes = Inr els"
    and notab: "table_elements (categorize els) = []"
    and texts_ok: "batch S (map el_content (text_elements (categorize els))) = Inr xs"
  shows "knowledge_page P S (Some (name, bytes)) s =
           Raised (ValueError ''Expected IDs to be a non-empty list, got []'')
             (s\<lparr>pdf_files := (pdf_files s)(pdf_path name \<mapsto> bytes)\<rparr>)"
  using new part notab texts_ok
  by (simp add: knowledge_page_def embed_file_def Let_def index_tables_def store_originals_Nil
      add_to_vectorstore_def summary_docs_def chroma_add_documents_Nil)

lemma summary_docs_content: "length xs = length ids \<Longrightarrow> map page_content (summary_docs xs ids) = xs"
  by (induction xs ids rule: list_induct2) (simp_all add: summary_docs_def)

lemma summary_docs_id_keys:
  "length xs = length ids \<Longrightarrow> map (\<lambda>d. map_of (metadata d) id_key) (summary_docs xs ids) = map Some ids"
  by (induction xs ids rule: list_induct2) (simp_all add: summary_docs_def)

text \<open>
  C18. Storing the originals is a round trip: \<open>mget\<close> of the drawn
  identifiers returns exactly the documents stored, one per element, each
  carrying its element's content and its own identifier under \<open>doc_id\<close>.
\<close>

theorem store_originals_mget:
  assumes "store_originals els s = (ids, asli, s1)"
  shows "docstore_mget ids (docstore s1) = map Some asli \<and> map page_content asli = map el_content els
         \<and> map (\<lambda>d. map_of (metadata d) id_key) asli = map Some ids"
proof -
  note f = store_originals_facts [OF assms]
  have len: "length ids = length els" using f(1) by simp
  have "distinct ids" using f(1) by simp
  moreover have "length ids = length asli" using f(2) len by (simp add: summary_docs_def)
  ultimately have "docstore_mget ids (docstore s1) = map Some asli"
    by (simp add: docstore_mget_def f(3) map_add_map_of_zip)
  then show ?thesis
    using f(2) len by (simp add: summary_docs_content summary_docs_id_keys)
qed

theorem store_originals_mget_witness:
  "docstore_mget [uuid4 0] (docstore kb_init ++ map_of [(uuid4 0, doc_with_id ''A'' (uuid4 0))])
     = [Some (doc_with_id ''A'' (uuid4 0))]
   \<and> map page_content [doc_with_id ''A'' (uuid4 0)] = [''A'']
   \<and> map (\<lambda>d. map_of (metadata d) id_key) [doc_with_id ''A'' (uuid4 0)] = [Some (uuid4 0)]"
proof -
  let ?e = "\<lparr>el_type = ''text'', el_content = ''A''\<rparr>"
  have so: "store_originals [?e] kb_init =
      ([uuid4 0], [doc_with_id ''A'' (uuid4 0)],
       kb_init\<lparr>uuid_next := 1, docstore := docstore kb_init ++ map_of [(uuid4 0, doc_with_id ''A'' (uuid4 0))]\<rparr>)"
    by (simp add: store_originals_eq uuids_def kb_init_def)
  show ?thesis using store_originals_mget [OF so] by simp
qed

text \<open>The definitions a closed run of the page unfolds to, for evaluation by \<open>simp\<close>.\<close>

lemmas kb_eval_defs =
  knowledge_page_def embed_file_def index_tables_def index_texts_def store_originals_def
  add_to_vectorstore_def chroma_add_documents_def summary_docs_def docstore_mset_def
  empty_collection_def uuids_def kb_pairs_def entry_doc_id_def doc_with_id_def id_key_def
  mxbai_def upsert_entry_def kb_init_def table_elements_def text_elements_def pdf_path_def
  categorize_def categorize_one_def class_matches_def type_str_def elements_module_def py_str_opt_def

end
