(* ===== verification/Retriever.thy ===== *)
theory Retriever
  imports Stores
begin

text \<open>
  Retrieval and answer generation as the chat pages compose them:
  \<open>MultiVectorRetriever\<close> (a similarity search over the collection, the hits'
  \<open>doc_id\<close>s collected in order without repetition, \<open>docstore.mget\<close>, missing
  originals dropped), \<open>create_stuff_documents_chain\<close> (the retrieved contents
  joined by blank lines into the system prompt), the prompt
  \<open>[system, MessagesPlaceholder("chat_history"), human]\<close>, and
  \<open>create_retrieval_chain\<close> (retrieve with the input, then answer). The
  retriever and chain functions are langchain code, modelled from their
  documented behaviour; the prompt templates and the retriever configurations
  are the pages' own (\<open>src/Chatbot.py\<close> lines 33 to 74,
  \<open>src/pages/2Chat Local.py\<close> lines 32 to 71).
\<close>

section \<open>The multi-vector retriever\<close>

datatype search_type = Similarity | SimilarityScoreThreshold

record mv_retriever =
  rv_embedder :: embedder
  rv_search :: search_type

text \<open>
  \<open>similarity_search_with_relevance_scores\<close>: the same nearest entries with a
  relevance score each; only a \<open>score_threshold\<close> in \<open>search_kwargs\<close> would
  filter them, and no page passes one.
\<close>

definition chroma_relevance_search ::
  "embedder \<Rightarrow> (string \<Rightarrow> string \<Rightarrow> nat) \<Rightarrow> nat \<Rightarrow> string \<Rightarrow> collection \<Rightarrow> error + (document \<times> nat) list" where
  "chroma_relevance_search emb dist k q c =
     (case chroma_similarity_search emb dist k q c of
        Inl e \<Rightarrow> Inl e
      | Inr ds \<Rightarrow> Inr (map (\<lambda>d. (d, dist q (page_content d))) ds))"

definition vector_hits ::
  "mv_retriever \<Rightarrow> (string \<Rightarrow> string \<Rightarrow> nat) \<Rightarrow> string \<Rightarrow> collection \<Rightarrow> error + document list" where
  "vector_hits r dist q c =
     (case rv_search r of
        Similarity \<Rightarrow> chroma_similarity_search (rv_embedder r) dist search_k q c
      | SimilarityScoreThreshold \<Rightarrow>
          (case chroma_relevance_search (rv_embedder r) dist search_k q c of
             Inl e \<Rightarrow> Inl e
           | Inr dss \<Rightarrow> Inr (map fst dss)))"

text \<open>
  \<^verbatim>\<open>for d in sub_docs:
    if self.id_key in d.metadata and d.metadata[self.id_key] not in ids:
        ids.append(d.metadata[self.id_key])\<close>
\<close>

fun collect_ids :: "string list \<Rightarrow> document list \<Rightarrow> string list" where
  "collect_ids ids [] = ids"
| "collect_ids ids (d # ds) =
     (case map_of (metadata d) id_key of
        Some i \<Rightarrow> if i \<notin> set ids then collect_ids (ids @ [i]) ds else collect_ids ids ds
      | None \<Rightarrow> collect_ids ids ds)"

text \<open>\<open>docs = self.docstore.mget(ids); return [d for d in docs if d is not None]\<close>\<close>

definition mv_get_relevant_documents ::
  "mv_retriever \<Rightarrow> (string \<Rightarrow> string \<Rightarrow> nat) \<Rightarrow> docstore \<Rightarrow> collection \<Rightarrow> string \<Rightarrow> error + document list" where
  "mv_get_relevant_documents r dist ds c q =
     (case vector_hits r dist q c of
        Inl e \<Rightarrow> Inl e
      | Inr sub_docs \<Rightarrow> Inr (List.map_filter (\<lambda>x. x) (docstore_mget (collect_ids [] sub_docs) ds)))"

text \<open>
  The retriever of \<open>src/Chatbot.py\<close> (lines 33 to 41: mxbai embeddings,
  \<open>SearchType.similarity_score_threshold\<close>), of
  \<open>src/pages/2Chat Local.py\<close> (lines 32 to 38) and of \<open>src/pages/4About.py\<close>
  (lines 30 to 36), both with nomic embeddings and the default search.
\<close>

definition chatbot_retriever :: mv_retriever where
  "chatbot_retriever = \<lparr>rv_embedder = mxbai, rv_search = SimilarityScoreThreshold\<rparr>"

definition local_retriever :: mv_retriever where
  "local_retriever = \<lparr>rv_embedder = nomic, rv_search = Similarity\<rparr>"

section \<open>Chat messages and the question-answering prompt\<close>

datatype chat_msg = SystemMessage string | HumanMessage string | AIMessage string

text \<open>
  A message dictionary in the placeholder is converted by langchain's
  \<open>_convert_to_message\<close>: both keys must be present, and the role must be one
  langchain knows, else \<open>ValueError\<close>.
\<close>

definition convert_message :: "py_dict \<Rightarrow> error + chat_msg" where
  "convert_message m =
     (case (map_of m ''role'', map_of m ''content'') of
        (Some r, Some c) \<Rightarrow>
          if r = ''user'' \<or> r = ''human'' then Inr (HumanMessage c)
          else if r = ''assistant'' \<or> r = ''ai'' then Inr (AIMessage c)
          else if r = ''system'' then Inr (SystemMessage c)
          else Inl (ValueError (''Unexpected message type: '' @ r))
      | _ \<Rightarrow> Inl (ValueError ''Message dict must contain role and content keys''))"

fun convert_messages :: "py_dict list \<Rightarrow> error + chat_msg list" where
  "convert_messages [] = Inr []"
| "convert_messages (m # ms) =
     (case convert_message m of
        Inl e \<Rightarrow> Inl e
      | Inr x \<Rightarrow> (case convert_messages ms of Inl e \<Rightarrow> Inl e | Inr xs \<Rightarrow> Inr (x # xs)))"

text \<open>
  \<open>str.format\<close> of a template with one field: every occurrence of the field
  is replaced, scanning left to right.
\<close>

function py_replace :: "string \<Rightarrow> string \<Rightarrow> string \<Rightarrow> string" where
  "py_replace pat rep s =
     (if pat = [] \<or> s = [] then s
      else if take (length pat) s = pat then rep @ py_replace pat rep (drop (length pat) s)
      else hd s # py_replace pat rep (tl s))"
  by pat_completeness auto
termination
  by (relation "measure (\<lambda>(pat, rep, s). length s)") auto

declare py_replace.simps [simp del]

definition context_field :: string where
  "context_field = ''{context}''"

definition newline :: string where
  "newline = [CHR 0x0A]"

text \<open>
  \<open>qa_system_prompt\<close> of \<open>src/Chatbot.py\<close>, lines 53 to 59. The backslashes
  at the line ends continue the string literal, so the lines are joined by
  single blanks, and the empty line 58 leaves one newline before the field.
\<close>

definition chatbot_qa_preamble :: string where
  "chatbot_qa_preamble =
     ''You are an indonesian assistant for question-answering about '' @ [CHR 0x22] @
     ''Information of Electrical Engineering at the University of Mataram'' @ [CHR 0x22] @
     ''. Use the following pieces of retrieved context to answer the question. '' @
     ''If you don'' @ [CHR 0x27] @ ''t know the answer, just say Informasi belum tersedia. '' @
     ''if you want make table use |. and answer only from the context. '' @ newline"

definition chatbot_qa_system_prompt :: string where
  "chatbot_qa_system_prompt = chatbot_qa_preamble @ context_field"

text \<open>\<open>qa_system_prompt\<close> of \<open>src/pages/2Chat Local.py\<close>, lines 51 to 56.\<close>

definition local_qa_preamble :: string where
  "local_qa_preamble =
     ''You are an assistant for question-answering tasks using indonesian language. '' @
     ''Use the following pieces of retrieved context to answer the question. '' @
     ''If you don'' @ [CHR 0x27] @ ''t know the answer, just say Informasi belum tersedia. '' @
     ''and answer only to the point.'' @ newline @ newline"

definition local_qa_system_prompt :: string where
  "local_qa_system_prompt = local_qa_preamble @ context_field"

text \<open>
  \<open>create_stuff_documents_chain(llm, qa_prompt)\<close>: each document rendered by
  the default document prompt \<open>{page_content}\<close>, joined by \<open>"\n\n"\<close>, put
  into the \<open>context\<close> field; the history placeholder and the human input follow.
\<close>

definition format_docs :: "document list \<Rightarrow> string" where
  "format_docs docs = py_join (newline @ newline) (map page_content docs)"

definition qa_prompt_messages :: "string \<Rightarrow> document list \<Rightarrow> py_dict list \<Rightarrow> string \<Rightarrow> error + chat_msg list" where
  "qa_prompt_messages template docs history input =
     (case convert_messages history of
        Inl e \<Rightarrow> Inl e
      | Inr hist \<Rightarrow> Inr ([SystemMessage (py_replace context_field (format_docs docs) template)]
                        @ hist @ [HumanMessage input]))"

section \<open>The retrieval chain\<close>

record rag_response =
  rag_answer :: string
  rag_context :: "document list"

text \<open>
  \<open>create_retrieval_chain(retriever, question_answer_chain)\<close> invoked with
  \<open>{"input": q, "chat_history": h}\<close>: the retriever gets only \<open>q\<close>; the
  answer chain gets the documents, the history and \<open>q\<close>; the result carries
  \<open>answer\<close> and \<open>context\<close>. The model is a parameter from messages to an
  answer or an error.
\<close>

type_synonym chat_model = "chat_msg list \<Rightarrow> error + string"

definition retrieval_chain ::
  "(string \<Rightarrow> error + document list) \<Rightarrow> chat_model \<Rightarrow> string \<Rightarrow> string \<Rightarrow> py_dict list \<Rightarrow> error + rag_response" where
  "retrieval_chain retrieve llm template q history =
     (case retrieve q of
        Inl e \<Rightarrow> Inl e
      | Inr docs \<Rightarrow>
          (case qa_prompt_messages template docs history q of
             Inl e \<Rightarrow> Inl e
           | Inr msgs \<Rightarrow>
               (case llm msgs of
                  Inl e \<Rightarrow> Inl e
                | Inr a \<Rightarrow> Inr \<lparr>rag_answer = a, rag_context = docs\<rparr>)))"

section \<open>Lemmas\<close>

text \<open>\<open>first_occurrences xs\<close>: the elements of \<open>xs\<close> in the order of their first occurrence.\<close>

lemma remdups_skip_dup: "y \<in> set bs \<Longrightarrow> remdups (as @ y # bs) = remdups (as @ bs)"
  by (induction as) auto

lemma rev_remdups_rev_snoc:
  "rev (remdups (rev (xs @ [y]))) = (if y \<in> set xs then rev (remdups (rev xs)) else rev (remdups (rev xs)) @ [y])"
  by simp

lemma rev_remdups_rev_dup:
  "y \<in> set xs \<Longrightarrow> rev (remdups (rev (xs @ y # zs))) = rev (remdups (rev (xs @ zs)))"
  by (simp add: remdups_skip_dup)

lemma collect_ids_first_occurrences:
  "distinct ids \<Longrightarrow>
   collect_ids ids ds = rev (remdups (rev (ids @ List.map_filter (\<lambda>d. map_of (metadata d) id_key) ds)))"
proof (induction ids ds rule: collect_ids.induct)
  case (1 ids)
  then show ?case by (simp add: List.map_filter_simps distinct_remdups_id)
next
  case (2 ids d ds)
  show ?case
  proof (cases "map_of (metadata d) id_key")
    case None
    with "2.IH" "2.prems" show ?thesis by (simp add: List.map_filter_simps)
  next
    case (Some i)
    show ?thesis
    proof (cases "i \<in> set ids")
      case True
      let ?h = "List.map_filter (\<lambda>d. map_of (metadata d) id_key)"
      have "collect_ids ids (d # ds) = collect_ids ids ds"
        using Some True by simp
      also have "\<dots> = rev (remdups (rev (ids @ ?h ds)))"
        using Some True "2.IH"(3) "2.prems" by simp
      also have "\<dots> = rev (remdups (rev (ids @ i # ?h ds)))"
        by (rule rev_remdups_rev_dup [OF True, symmetric])
      also have "ids @ i # ?h ds = ids @ ?h (d # ds)"
        using Some by (simp add: List.map_filter_simps)
      finally show ?thesis .
    next
      case False
      with Some "2.IH"(2) "2.prems" show ?thesis
        by (simp add: List.map_filter_simps)
    qed
  qed
qed

lemma py_replace_skip:
  assumes "pat \<noteq> []" and "hd pat \<notin> set p"
  shows "py_replace pat rep (p @ rest) = p @ py_replace pat rep rest"
  using assms(2)
proof (induction p)
  case Nil
  then show ?case by simp
next
  case (Cons c p)
  from assms(1) Cons.prems have "take (length pat) (c # p @ rest) \<noteq> pat"
    by (cases pat) auto
  with assms(1) Cons show ?case
    by (subst py_replace.simps) simp
qed

lemma py_replace_whole: "pat \<noteq> [] \<Longrightarrow> py_replace pat rep pat = rep"
  by (subst py_replace.simps) (simp add: py_replace.simps)

lemma py_replace_template:
  "hd context_field \<notin> set pre \<Longrightarrow> py_replace context_field rep (pre @ context_field) = pre @ rep"
  using py_replace_skip [of context_field pre rep context_field] py_replace_whole [of context_field rep]
  by (simp add: context_field_def)

lemma chatbot_system_prompt_format:
  "py_replace context_field ctx chatbot_qa_system_prompt = chatbot_qa_preamble @ ctx"
  unfolding chatbot_qa_system_prompt_def
  by (rule py_replace_template) (simp add: context_field_def chatbot_qa_preamble_def newline_def)

lemma local_system_prompt_format:
  "py_replace context_field ctx local_qa_system_prompt = local_qa_preamble @ ctx"
  unfolding local_qa_system_prompt_def
  by (rule py_replace_template) (simp add: context_field_def local_qa_preamble_def newline_def)

lemma set_map_filter_hits:
  "set (List.map_filter f xs) = {y. \<exists>x \<in> set xs. f x = Some y}"
  by (induction xs) (auto simp: List.map_filter_simps split: option.splits)

lemma collect_ids_set:
  "set (collect_ids [] ds) = {i. \<exists>d \<in> set ds. map_of (metadata d) id_key = Some i}"
  by (simp add: collect_ids_first_occurrences set_map_filter_hits)

lemma distinct_collect_ids: "distinct (collect_ids [] ds)"
  by (simp add: collect_ids_first_occurrences)

lemma map_filter_id_all_Some:
  "\<forall>x \<in> set xs. x \<noteq> None \<Longrightarrow> List.map_filter (\<lambda>x. x) xs = map the xs"
  by (induction xs) (auto simp: List.map_filter_simps)

lemma vector_hits_similarity:
  "vector_hits r dist q c = chroma_similarity_search (rv_embedder r) dist search_k q c"
  by (simp add: vector_hits_def chroma_relevance_search_def comp_def split: search_type.split sum.split)

lemma vector_hits_Inr:
  "vector_hits r dist q c = Inr hits \<Longrightarrow> set hits \<subseteq> entry_doc ` set (entries c) \<and> length hits \<le> search_k"
  unfolding vector_hits_similarity using chroma_similarity_search_Inr by blast

lemma mv_get_relevant_documents_Inr:
  "mv_get_relevant_documents r dist ds c q = Inr docs \<Longrightarrow>
   \<exists>hits. vector_hits r dist q c = Inr hits \<and> docs = List.map_filter (\<lambda>x. x) (map ds (collect_ids [] hits))"
  by (auto simp: mv_get_relevant_documents_def docstore_mget_def split: sum.splits)

lemma collect_ids_dedup:
  "collect_ids [] ds = rev (remdups (rev (List.map_filter (\<lambda>d. map_of (metadata d) id_key) ds)))"
  using collect_ids_first_occurrences [of "[]" ds] by simp

lemma length_collect_ids: "length (collect_ids [] hits) \<le> length hits"
proof -
  have "length (rev (remdups (rev (List.map_filter (\<lambda>d. map_of (metadata d) id_key) hits))))
        \<le> length (List.map_filter (\<lambda>d. map_of (metadata d) id_key) hits)"
    using length_remdups_leq [of "rev (List.map_filter (\<lambda>d. map_of (metadata d) id_key) hits)"] by simp
  also have "\<dots> \<le> length hits" by (rule length_map_filter_le)
  finally show ?thesis by (simp add: collect_ids_dedup)
qed

lemma vector_hits_length:
  "vector_hits r dist q c = Inr hits \<Longrightarrow> length hits \<le> search_k \<and> length hits \<le> length (entries c)"
  by (auto simp: vector_hits_similarity chroma_similarity_search_def split: option.splits if_splits)

lemma mv_get_relevant_documents_length:
  assumes "mv_get_relevant_documents r dist ds c q = Inr docs"
  shows "length docs \<le> search_k \<and> length docs \<le> length (entries c)"
proof -
  obtain hits where h: "vector_hits r dist q c = Inr hits"
    and docs: "docs = List.map_filter (\<lambda>x. x) (map ds (collect_ids [] hits))"
    using mv_get_relevant_documents_Inr [OF assms] by blast
  have "length docs \<le> length hits"
    using length_map_filter_le [of "\<lambda>x. x" "map ds (collect_ids [] hits)"] length_collect_ids [of hits]
    by (simp add: docs)
  with vector_hits_length [OF h] show ?thesis by simp
qed


end
