(* ===== verification/Knowledge.thy ===== *)
theory Knowledge
  imports Ingest Retriever
begin

text \<open>
  The knowledge page as a whole script (\<open>src/pages/3Knowlage.py\<close>): the
  summary chain the page builds for every upload (lines 89 to 104), the status
  box of an upload (line 51) and the sidebar that lists the whole Chroma
  collection after the upload block (lines 149 to 154). It also holds the
  progress of an upload: when it completes and what it leaves behind when it
  does not.
\<close>

section \<open>The summary chain\<close>

text \<open>
  Line 93: the template is written \<open>"""" Summarize ... : {doc} """\<close>, so the
  text opens with a stray double quote and ends with a blank after the field.
  \<open>{"doc": lambda x: x}\<close> fills the field with the element's content; the
  prompt value reaches ChatGroq as one human message and \<open>StrOutputParser\<close>
  keeps its text.
\<close>

definition summary_prompt :: "string \<Rightarrow> string" where
  "summary_prompt doc =
     [CHR 0x22] @ '' Summarize the content of the following document into a single sentence in Bahasa Indonesia, directly without any introductory phrases or opening sentences : ''
     @ doc @ '' ''"

definition summary_chain :: "chat_model \<Rightarrow> summarizer" where
  "summary_chain llm doc = llm [HumanMessage (summary_prompt doc)]"

section \<open>The sidebar\<close>

text \<open>
  \<open>chroma.get()\<close> with no arguments: the ids, documents and metadatas of every
  entry, in insertion order (the embeddings are not included by default).
\<close>

record get_result =
  get_ids :: "string list"
  get_documents :: "string list"
  get_metadatas :: "py_dict list"

definition chroma_get :: "collection \<Rightarrow> get_result" where
  "chroma_get c = \<lparr>get_ids = map entry_id (entries c),
                   get_documents = map (page_content \<circ> entry_doc) (entries c),
                   get_metadatas = map (metadata \<circ> entry_doc) (entries c)\<rparr>"

datatype kb_event = Status string | SidebarSubheader string | SidebarData get_result

section \<open>One run of the script\<close>

text \<open>
  Lines 47 to 154: the status box opens for a new upload; an exception in the
  upload block ends the script before the sidebar; otherwise the sidebar shows
  the collection as it is after the upload.
\<close>

definition upload_status :: "(string \<times> string) option \<Rightarrow> kb_state \<Rightarrow> kb_event list" where
  "upload_status upload s =
     (case upload of
        None \<Rightarrow> []
      | Some (name, bytes) \<Rightarrow>
          if pdf_path name \<in> dom (pdf_files s) then [] else [Status ''Embedding file...''])"

definition knowledge_script ::
  "chat_model \<Rightarrow> partitioner \<Rightarrow> (string \<times> string) option \<Rightarrow> kb_state \<Rightarrow> (kb_state \<times> kb_event list) run" where
  "knowledge_script llm partition_pdf upload s =
     (case knowledge_page partition_pdf (summary_chain llm) upload s of
        Raised e s' \<Rightarrow> Raised e (s', upload_status upload s)
      | Done s' \<Rightarrow> Done (s', upload_status upload s @
                          [SidebarSubheader ''Chroma Database'', SidebarData (chroma_get (vectordb s'))]))"

section \<open>Progress of an upload\<close>

lemma batch_total: "(\<forall>x. \<exists>y. f x = Inr y) \<Longrightarrow> \<exists>ys. batch f xs = Inr ys"
  by (induction xs) (auto, metis sum.simps(6))

lemma add_to_vectorstore_progress:
  assumes "kb_inv s" and "mxbai_dim s" and "docs \<noteq> []"
  shows "\<exists>s'. add_to_vectorstore docs s = Done s' \<and> mxbai_dim s'
           \<and> length (entries (vectordb s')) = length (entries (vectordb s)) + length docs"
proof -
  obtain c' where add: "chroma_add_documents mxbai docs (uuid_next s) (vectordb s) = Inr (c', uuid_next s + length docs)"
    using chroma_add_documents_ok [OF assms(3), of "vectordb s" mxbai "uuid_next s"] assms(2)
    by (auto simp: mxbai_dim_def)
  have "ids_fresh_from (uuid_next s) (set (entry_ids (vectordb s)))" using assms(1) by (simp add: kb_inv_def)
  note r = chroma_add_documents_Inr [OF add this]
  show ?thesis
    using r(1,4) by (simp add: add_to_vectorstore_def add mxbai_dim_def)
qed

text \<open>A group with at least one element is stored and indexed, one entry per element.\<close>

lemma index_tables_progress:
  assumes "kb_inv s" and "mxbai_dim s" and "tables \<noteq> []" and "length ts = length tables"
  shows "\<exists>s'. index_tables tables ts s = Done s' \<and> kb_inv s' \<and> mxbai_dim s'
           \<and> length (entries (vectordb s')) = length (entries (vectordb s)) + length tables"
proof (cases "store_originals tables s")
  case (fields ids asli s1)
  note f = store_originals_facts [OF fields]
  have s1: "kb_inv s1" "mxbai_dim s1"
    using store_originals_inv [OF assms(1) fields] assms(2) f(4) by (simp_all add: mxbai_dim_def)
  have "ts \<noteq> []" using assms(3,4) by (metis length_0_conv)
  then have ne: "summary_docs ts ids \<noteq> []" and len: "length (summary_docs ts ids) = length tables"
    using assms(3,4) f(1) by (simp_all add: summary_docs_def)
  obtain s' where d: "index_tables tables ts s = Done s'" and "mxbai_dim s'"
    and "length (entries (vectordb s')) = length (entries (vectordb s)) + length tables"
    using add_to_vectorstore_progress [OF s1 ne] len f(4) by (auto simp: index_tables_def fields)
  moreover have "kb_inv s'" using index_tables_inv [OF assms(1), of tables ts] d by simp
  ultimately show ?thesis by blast
qed

lemma index_texts_progress:
  assumes "kb_inv s" and "mxbai_dim s" and "texts \<noteq> []"
  shows "\<exists>s'. index_texts texts xs s = Done s' \<and> kb_inv s' \<and> mxbai_dim s'
           \<and> length (entries (vectordb s')) = length (entries (vectordb s)) + length texts"
proof (cases "store_originals texts s")
  case (fields ids asli s1)
  note f = store_originals_facts [OF fields]
  have s1: "kb_inv s1" "mxbai_dim s1"
    using store_originals_inv [OF assms(1) fields] assms(2) f(4) by (simp_all add: mxbai_dim_def)
  have ne: "asli \<noteq> []" and len: "length asli = length texts"
    using assms(3) f(1,2) by (simp_all add: summary_docs_def)
  obtain s' where d: "index_texts texts xs s = Done s'" and "mxbai_dim s'"
    and "length (entries (vectordb s')) = length (entries (vectordb s)) + length texts"
    using add_to_vectorstore_progress [OF s1 ne] len f(4) by (auto simp: index_texts_def fields)
  moreover have "kb_inv s'" using index_texts_inv [OF assms(1), of texts xs] d by simp
  ultimately show ?thesis by blast
qed

lemma embed_file_progress:
  assumes "kb_inv s" and "mxbai_dim s" and part: "P bytes = Inr els"
    and tab: "table_elements (categorize els) \<noteq> []" and texts_ne: "text_elements (categorize els) \<noteq> []"
    and ts: "batch S (map el_content (table_elements (categorize els))) = Inr ts"
    and xs: "batch S (map el_content (text_elements (categorize els))) = Inr xs"
  shows "\<exists>s'. embed_file P S name bytes s = Done s' \<and> kb_inv s' \<and> mxbai_dim s'
           \<and> length (entries (vectordb s')) = length (entries (vectordb s))
                + length (table_elements (categorize els)) + length (text_elements (categorize els))"
proof -
  let ?s0 = "s\<lparr>pdf_files := (pdf_files s)(pdf_path name \<mapsto> bytes)\<rparr>"
  have s0: "kb_inv ?s0" "mxbai_dim ?s0" using assms(1,2) by (simp_all add: mxbai_dim_def)
  have "length ts = length (table_elements (categorize els))" using batch_length [OF ts] by simp
  from index_tables_progress [OF s0 tab this] obtain s1 where
    t: "index_tables (table_elements (categorize els)) ts ?s0 = Done s1" and s1: "kb_inv s1" "mxbai_dim s1"
    and l1: "length (entries (vectordb s1)) = length (entries (vectordb s)) + length (table_elements (categorize els))"
    by auto
  from index_texts_progress [OF s1 texts_ne, of xs] obtain s2 where
    x: "index_texts (text_elements (categorize els)) xs s1 = Done s2" and s2: "kb_inv s2" "mxbai_dim s2"
    and l2: "length (entries (vectordb s2)) = length (entries (vectordb s1)) + length (text_elements (categorize els))"
    by auto
  have "embed_file P S name bytes s = Done s2"
    by (simp add: embed_file_def Let_def part ts xs t x)
  with s2 l1 l2 show ?thesis by auto
qed

text \<open>
  C19. An upload with tables but no text element raises at line 147
  (\<open>add_documents([])\<close>) after the tables are already stored and indexed:
  the run ends with an exception and a knowledge base that holds the tables.
\<close>

theorem knowledge_page_no_texts:
  assumes "kb_inv s" and "mxbai_dim s" and new: "pdf_path name \<notin> dom (pdf_files s)"
    and part: "P bytes = Inr els"
    and tab: "table_elements (categorize els) \<noteq> []" and notxt: "text_elements (categorize els) = []"
    and ts: "batch S (map el_content (table_elements (categorize els))) = Inr ts"
  shows "\<exists>s'. knowledge_page P S (Some (name, bytes)) s =
           Raised (ValueError ''Expected IDs to be a non-empty list, got []'') s'
         \<and> length (entries (vectordb s')) = length (entries (vectordb s)) + length (table_elements (categorize els))"
proof -
  let ?s0 = "s\<lparr>pdf_files := (pdf_files s)(pdf_path name \<mapsto> bytes)\<rparr>"
  have s0: "kb_inv ?s0" "mxbai_dim ?s0" using assms(1,2) by (simp_all add: mxbai_dim_def)
  have "length ts = length (table_elements (categorize els))" using batch_length [OF ts] by simp
  from index_tables_progress [OF s0 tab this] obtain s1 where
    t: "index_tables (table_elements (categorize els)) ts ?s0 = Done s1"
    and l1: "length (entries (vectordb s1)) = length (entries (vectordb s)) + length (table_elements (categorize els))"
    by auto
  have "knowledge_page P S (Some (name, bytes)) s =
          Raised (ValueError ''Expected IDs to be a non-empty list, got []'') s1"
    using new by (simp add: knowledge_page_def embed_file_def Let_def part ts notxt t index_texts_def
        store_originals_Nil add_to_vectorstore_def summary_docs_def chroma_add_documents_Nil)
  with l1 show ?thesis by blast
qed

lemma knowledge_script_state:
  "fst (run_state (knowledge_script llm P u s)) = run_state (knowledge_page P (summary_chain llm) u s)"
  by (simp add: knowledge_script_def split: run.split)

lemma knowledge_page_records_upload:
  "pdf_path name \<in> dom (pdf_files (run_state (knowledge_page P S (Some (name, bytes)) s)))"
  using embed_file_records_file [of name P S bytes s] by (simp add: knowledge_page_def)

text \<open>
  C26. Streamlit reruns the script on every interaction while the file stays
  in the uploader. Whatever the first run did (indexed, raised half way, or
  nothing), a rerun with the same upload changes nothing, opens no status box
  and shows the sidebar of the state the first run left.
\<close>

theorem knowledge_script_rerun:
  "knowledge_script llm' P' u (fst (run_state (knowledge_script llm P u s))) =
     Done (fst (run_state (knowledge_script llm P u s)),
           [SidebarSubheader ''Chroma Database'', SidebarData (chroma_get (vectordb (fst (run_state (knowledge_script llm P u s)))))])"
proof (cases u)
  case None
  then show ?thesis by (simp add: knowledge_script_state knowledge_script_def knowledge_page_def upload_status_def)
next
  case (Some ub)
  then obtain name bytes where u: "u = Some (name, bytes)" by (cases ub) auto
  have "pdf_path name \<in> dom (pdf_files (fst (run_state (knowledge_script llm P u s))))"
    unfolding knowledge_script_state u by (rule knowledge_page_records_upload)
  then show ?thesis by (simp add: u knowledge_script_def knowledge_page_def upload_status_def)
qed

end
