(* ===== verification/Pages.thy ===== *)
theory Pages
  imports Ingest Retriever
begin

text \<open>
  The two auxiliary pages. \<open>src/pages/4About.py\<close> opens the shared stores
  with the nomic embedder, shows a document count and answers four fixed
  questions, each retrieved twice (once to show the context, once inside the
  chain). \<open>src/pages/5Test.py\<close> replaces the document of one fixed entry id
  of the collection by a fixed document whose \<open>doc_id\<close> is fixed too.
\<close>

section \<open>The About page\<close>

text \<open>Lines 24 to 36: \<open>MultiVectorRetriever\<close> with the default search type.\<close>

definition about_retriever :: mv_retriever where
  "about_retriever = \<lparr>rv_embedder = nomic, rv_search = Similarity\<rparr>"

text \<open>
  \<open>vectorstore.get()\<close> returns chromadb's \<open>GetResult\<close>, a dictionary with one
  key per field, whatever the collection holds. The fields depend on the
  chromadb version, which the repository does not pin: the model takes the
  seven of the versions whose result carries \<open>uris\<close>, \<open>data\<close> and
  \<open>included\<close>; older versions return only the first four.
\<close>

definition chroma_get_keys :: "string list" where
  "chroma_get_keys = [''ids'', ''embeddings'', ''metadatas'', ''documents'', ''uris'', ''data'', ''included'']"

text \<open>What \<open>st.write\<close> shows: a text, a text with documents, a text with a number.\<close>

datatype about_event = Write string | WriteDocs string "document list" | WriteCount string nat

text \<open>
  Lines 42 to 46: \<open>PromptTemplate.format\<close> fills both fields in one pass;
  \<open>repr\<close> is Python's \<open>str\<close> of the retrieved list of documents.
\<close>

definition about_prompt :: "string \<Rightarrow> string \<Rightarrow> string" where
  "about_prompt context question =
     ''Answer the question based only on the following context, which can include text and tables, and answer with Indonesia language:''
     @ newline @ context @ newline @ ''Question: '' @ question @ newline"

type_synonym doc_repr = "document list \<Rightarrow> string"

definition py_quote :: "string \<Rightarrow> string" where
  "py_quote q = [CHR 0x27] @ q @ [CHR 0x27]"

text \<open>
  Lines 56 to 61: the retriever runs on the question, the prompt becomes one
  human message for the model, \<open>StrOutputParser\<close> keeps its text.
\<close>

definition about_chain ::
  "chat_model \<Rightarrow> (string \<Rightarrow> string \<Rightarrow> nat) \<Rightarrow> docstore \<Rightarrow> collection \<Rightarrow> doc_repr \<Rightarrow> string \<Rightarrow> error + string" where
  "about_chain llm dist ds c repr question =
     (case mv_get_relevant_documents about_retriever dist ds c question of
        Inl e \<Rightarrow> Inl e
      | Inr docs \<Rightarrow> llm [HumanMessage (about_prompt (repr docs) question)])"

text \<open>Lines 64 to 74.\<close>

definition ask_question ::
  "chat_model \<Rightarrow> (string \<Rightarrow> string \<Rightarrow> nat) \<Rightarrow> docstore \<Rightarrow> collection \<Rightarrow> doc_repr \<Rightarrow> string \<Rightarrow>
   about_event list \<Rightarrow> about_event list run" where
  "ask_question llm dist ds c repr question screen =
     (case mv_get_relevant_documents about_retriever dist ds c question of
        Inl e \<Rightarrow> Raised e screen
      | Inr context \<Rightarrow>
          (let screen1 = screen @ [WriteDocs (''Konteks yang ditemukan untuk pertanyaan '' @ py_quote question @ '':'') context]
           in if context \<noteq> [] then
                (case about_chain llm dist ds c repr question of
                   Inl e \<Rightarrow> Raised e screen1
                 | Inr response \<Rightarrow>
                     Done (screen1 @ [Write (''Jawaban untuk pertanyaan '' @ py_quote question @ '': '' @ response)]))
              else Done (screen1 @ [Write (''Tidak ada konteks yang ditemukan untuk pertanyaan '' @ py_quote question @ ''.'')])))"

text \<open>Lines 77 to 90: the four calls in order; an exception ends the script.\<close>

definition about_questions :: "string list" where
  "about_questions = [''Ketua jurusan ?'', ''Nama lengkap pak misbah ?'', ''Sekjur ?'', ''Nama lengkap pak syafar ?'']"

fun ask_all :: "(string \<Rightarrow> 's \<Rightarrow> 's run) \<Rightarrow> string list \<Rightarrow> 's \<Rightarrow> 's run" where
  "ask_all ask [] screen = Done screen"
| "ask_all ask (q # qs) screen = run_then (ask q screen) (ask_all ask qs)"

text \<open>The whole script, lines 39 and 77 to 90.\<close>

definition about_count_label :: string where
  "about_count_label = ''Dokumen yang tersimpan di vectorstore:''"

definition about_page ::
  "chat_model \<Rightarrow> (string \<Rightarrow> string \<Rightarrow> nat) \<Rightarrow> docstore \<Rightarrow> collection \<Rightarrow> doc_repr \<Rightarrow> about_event list run" where
  "about_page llm dist ds c repr =
     ask_all (ask_question llm dist ds c repr) about_questions
       [WriteCount about_count_label (length chroma_get_keys)]"

section \<open>The Test page\<close>

text \<open>Lines 29 to 35.\<close>

definition id_update :: string where
  "id_update = ''83dc8289-a266-4e9a-8921-3d75090f007f''"

definition test_doc_id :: string where
  "test_doc_id = ''d8d4ac08-36d6-422d-9b7f-1bf6cd2095f0''"

definition new_document_content :: string where
  "new_document_content =
     ''Nama lengkap, NIP, email 1, email 2, dan alamat dosen. Adapun nama-nama dosen ya'' @
     ''ng tertulis dalam tabel ini antara lain A. Sjamsjiar Rachman, ST., MT, pak Abdul'' @
     '' Natsir, ST., MT,pak Abdullah Zainuddin, ST., MT,pak Agung Budi Muljono, ST., MT'' @
     '', Budi Darmawan, ST., M.Eng., Bulkis Kanata, ST., MT.,pak Cahyo Mustiko O. M., S'' @
     ''T., M.Sc., Ph.D., pak Cipta Ramadhani, ST., M.Eng., Djul Fikry Budiman, ST., MT.'' @
     '', Dr. I Made Ginarsa, ST., MT., Dr. Ida Ayu Sri Adnyani, ST., M.Erg.,pak Dr.Ir. '' @
     ''Misbahuddin, ST., MT.IPu, Dr. rer. nat. Teti Zubaidah, ST., MT., Dr. Rismon H. S'' @
     ''ianipar, ST., MT., M. Eng., pak Dr. Warindi, ST., M.Eng., Dwi Ratnasari, S.Kom.,'' @
     '' MT., Giri Wahyu Wiriasto, ST., MT., I Ketut Perdana Putra, ST., MT., I Ketut Wi'' @
     ''ryajati, ST., MT., I Made Ari Nrartha, ST., MT., I Made Budi Suksmadana, ST., MT'' @
     ''., I Nyoman Wahyu S., ST., MSc., Ph.D., Ida Bagus Fery Citarsa, ST., MT., Lalu A'' @
     ''. Syamsul Irfan Akbar, ST., M.Eng., Made Sutha Yadnya, ST., MT., Muhamad Irwan, '' @
     ''ST., MT., Muhamad Syamsu Iqbal, ST., MT., Ph.D., Ni Made Seniari, ST., MT., Pani'' @
     ''ran, ST., MT., Rosmaliati, ST., MT., Sabar Nababan, ST., MT., Sayidiman, ST. M.E'' @
     ''ng., Sudi M. Al Sasongko, ST., MT., Sultan, ST., MT., Supriono, ST., MT., Supriy'' @
     ''atna, ST., MT., Syafarudin Ch, ST., MT., dan Suthami Ariessaputra, ST., M.Eng.''"

definition new_document :: document where
  "new_document = \<lparr>page_content = new_document_content, metadata = [(id_key, test_doc_id)]\<rparr>"

text \<open>
  The script: the docstore it opens (lines 11 and 12) is never written; the
  collection entry \<open>id_update\<close> gets the new document, embedded by mxbai.
\<close>

definition test_page :: "collection \<Rightarrow> error + collection" where
  "test_page c = chroma_update_document mxbai id_update new_document c"

section \<open>Lemmas\<close>

lemma mv_get_dim_mismatch:
  "dimension c = Some d \<Longrightarrow> d \<noteq> emb_dim (rv_embedder r) \<Longrightarrow>
   mv_get_relevant_documents r dist ds c q = Inl (InvalidDimension d (emb_dim (rv_embedder r)))"
  by (simp add: mv_get_relevant_documents_def vector_hits_similarity chroma_similarity_search_def)

lemma ask_question_prefix: "prefix screen (run_state (ask_question llm dist ds c repr q screen))"
  by (auto simp: ask_question_def Let_def split: sum.split)

lemma ask_all_prefix:
  "(\<And>q s. prefix s (run_state (ask q s))) \<Longrightarrow> prefix screen (run_state (ask_all ask qs screen))"
proof (induction qs arbitrary: screen)
  case Nil
  then show ?case by simp
next
  case (Cons q qs)
  show ?case
  proof (cases "ask q screen")
    case (Done s)
    with Cons.prems have "prefix screen s" by (metis run_state.simps(1))
    moreover have "prefix s (run_state (ask_all ask qs s))" using Cons by blast
    ultimately show ?thesis using Done by (auto intro: prefix_order.trans)
  next
    case (Raised e s)
    with Cons.prems show ?thesis by (metis ask_all.simps(2) run_state.simps(2) run_then.simps(2))
  qed
qed

lemma about_page_dim_mismatch:
  "dimension c = Some d \<Longrightarrow> d \<noteq> emb_dim nomic \<Longrightarrow>
   about_page llm dist ds c repr =
     Raised (InvalidDimension d (emb_dim nomic)) [WriteCount about_count_label (length chroma_get_keys)]"
  using mv_get_dim_mismatch [of c d about_retriever]
  by (simp add: about_page_def about_questions_def ask_question_def about_retriever_def)

lemma test_page_Inr:
  "test_page c = Inr c' \<Longrightarrow>
   entries c' = map (\<lambda>e. if entry_id e = id_update then e\<lparr>entry_doc := new_document\<rparr> else e) (entries c)"
  by (auto simp: test_page_def chroma_update_document_def split: sum.splits)

lemma entry_doc_id_new_document [simp]: "entry_doc_id (e\<lparr>entry_doc := new_document\<rparr>) = Some test_doc_id"
  by (simp add: entry_doc_id_def new_document_def)

text \<open>
  C14. A question of the About page with a non-empty context is answered from
  the context of a second retrieval inside the chain; when the retrieval is
  deterministic, the page shows the context and then the model's answer to
  the filled template, one human message.
\<close>

theorem ask_question_answer:
  assumes "mv_get_relevant_documents about_retriever dist ds c q = Inr ctx" and "ctx \<noteq> []"
    and "llm [HumanMessage (about_prompt (repr ctx) q)] = Inr a"
  shows "ask_question llm dist ds c repr q screen =
           Done (screen @ [WriteDocs (''Konteks yang ditemukan untuk pertanyaan '' @ py_quote q @ '':'') ctx,
                           Write (''Jawaban untuk pertanyaan '' @ py_quote q @ '': '' @ a)])"
  using assms by (simp add: ask_question_def about_chain_def)

text \<open>
  C15. The Test page keeps every vector entry joined to a stored original only
  when the entry \<open>id_update\<close> does not exist or the docstore already holds
  \<open>test_doc_id\<close>: it writes no docstore entry for the \<open>doc_id\<close> it sets.
\<close>

theorem test_page_joins:
  assumes "joins ds c" and "test_page c = Inr c'"
  shows "joins ds c' \<longleftrightarrow> id_update \<notin> set (entry_ids c) \<or> test_doc_id \<in> dom ds"
proof -
  have c': "entries c' = map (\<lambda>e. if entry_id e = id_update then e\<lparr>entry_doc := new_document\<rparr> else e) (entries c)"
    using assms(2) by (rule test_page_Inr)
  show ?thesis
  proof
    assume j: "joins ds c'"
    show "id_update \<notin> set (entry_ids c) \<or> test_doc_id \<in> dom ds"
    proof (cases "id_update \<in> set (entry_ids c)")
      case True
      then obtain e where "e \<in> set (entries c)" and "entry_id e = id_update"
        by (auto simp: entry_ids_def)
      then have "e\<lparr>entry_doc := new_document\<rparr> \<in> set (entries c')" by (force simp: c')
      with j show ?thesis by (force simp: joins_def)
    qed simp
  next
    assume "id_update \<notin> set (entry_ids c) \<or> test_doc_id \<in> dom ds"
    with assms(1) show "joins ds c'"
      by (auto simp: joins_def c' entry_ids_def image_iff split: if_splits)
  qed
qed

lemma ask_question_length: "length (run_state (ask_question llm dist ds c repr q screen)) \<le> length screen + 2"
  by (auto simp: ask_question_def Let_def split: sum.split)

lemma ask_all_length:
  "(\<And>q s. length (run_state (ask q s)) \<le> length s + k) \<Longrightarrow>
   length (run_state (ask_all ask qs screen)) \<le> length screen + k * length qs"
proof (induction qs arbitrary: screen)
  case Nil
  then show ?case by simp
next
  case (Cons q qs)
  show ?case
  proof (cases "ask q screen")
    case (Done s)
    with Cons.prems have "length s \<le> length screen + k" by (metis run_state.simps(1))
    moreover have "length (run_state (ask_all ask qs s)) \<le> length s + k * length qs" using Cons by blast
    ultimately show ?thesis using Done by simp
  next
    case (Raised e s)
    with Cons.prems have "length s \<le> length screen + k" by (metis run_state.simps(2))
    with Raised show ?thesis by simp
  qed
qed

text \<open>
  C23. One run of the About page writes at most nine outputs: the document
  count, then for each of the four questions its context and its answer (or
  the no-context notice), fewer when a question raises.
\<close>

theorem about_page_output_bound:
  "1 \<le> length (run_state (about_page llm dist ds c repr)) \<and> length (run_state (about_page llm dist ds c repr)) \<le> 9"
proof -
  have "length (run_state (about_page llm dist ds c repr)) \<le> 1 + 2 * length about_questions"
    unfolding about_page_def
    using ask_all_length [where ask = "ask_question llm dist ds c repr" and k = 2 and qs = about_questions
        and screen = "[WriteCount about_count_label (length chroma_get_keys)]", OF ask_question_length]
    by simp
  moreover have "prefix [WriteCount about_count_label (length chroma_get_keys)] (run_state (about_page llm dist ds c repr))"
    unfolding about_page_def by (rule ask_all_prefix) (rule ask_question_prefix)
  ultimately show ?thesis by (auto simp: about_questions_def dest: prefix_length_le)
qed

lemma mv_get_no_dimension:
  "dimension c = None \<Longrightarrow> mv_get_relevant_documents r dist ds c q = Inr []"
  by (simp add: mv_get_relevant_documents_def vector_hits_similarity chroma_similarity_search_def
      docstore_mget_def List.map_filter_simps)

definition no_context_events :: "string \<Rightarrow> about_event list" where
  "no_context_events q =
     [WriteDocs (''Konteks yang ditemukan untuk pertanyaan '' @ py_quote q @ '':'') [],
      Write (''Tidak ada konteks yang ditemukan untuk pertanyaan '' @ py_quote q @ ''.'')]"

lemma ask_all_no_context:
  "dimension c = None \<Longrightarrow>
   ask_all (ask_question llm dist ds c repr) qs screen = Done (screen @ concat (map no_context_events qs))"
  by (induction qs arbitrary: screen) (simp_all add: ask_question_def mv_get_no_dimension no_context_events_def)

text \<open>
  C28. On a collection never written (a fresh installation), the About page
  never calls the model: for each of the four questions in order it shows an
  empty context and the no-context notice, after the count.
\<close>

theorem about_page_empty_collection:
  assumes "dimension c = None"
  shows "about_page llm dist ds c repr =
           Done (WriteCount about_count_label 7 # concat (map no_context_events about_questions))"
  using ask_all_no_context [OF assms] by (simp add: about_page_def chroma_get_keys_def)

theorem about_page_empty_collection_witness:
  "about_page (\<lambda>_. Inl (ServiceError ''down'')) (\<lambda>_ _. 0) Map.empty empty_collection (\<lambda>_. [])
     = Done (WriteCount about_count_label 7 # concat (map no_context_events about_questions))"
  using about_page_empty_collection [of empty_collection] by (simp add: empty_collection_def)

section \<open>Sample runs\<close>

definition sample_ds :: docstore where
  "sample_ds = [''k1'' \<mapsto> doc_with_id ''Ketua jurusan: Dr. A'' ''k1'']"

definition sample_c768 :: collection where
  "sample_c768 = \<lparr>entries = [\<lparr>entry_id = ''e1'', entry_doc = doc_with_id ''Ketua jurusan'' ''k1''\<rparr>],
     dimension = Some 768\<rparr>"

lemma sample_about_retrieval:
  "mv_get_relevant_documents about_retriever (\<lambda>_ _. 0) sample_ds sample_c768 q =
     Inr [doc_with_id ''Ketua jurusan: Dr. A'' ''k1'']"
  by (simp add: mv_get_relevant_documents_def vector_hits_similarity chroma_similarity_search_def
      about_retriever_def nomic_def sample_c768_def sample_ds_def search_k_def docstore_mget_def
      List.map_filter_simps doc_with_id_def id_key_def)

theorem ask_question_answer_witness:
  "ask_question (\<lambda>_. Inr ''Dr. A'') (\<lambda>_ _. 0) sample_ds sample_c768 (\<lambda>_. ''docs'') ''Ketua jurusan ?'' [] =
     Done [WriteDocs (''Konteks yang ditemukan untuk pertanyaan '' @ py_quote ''Ketua jurusan ?'' @ '':'')
             [doc_with_id ''Ketua jurusan: Dr. A'' ''k1''],
           Write (''Jawaban untuk pertanyaan '' @ py_quote ''Ketua jurusan ?'' @ '': '' @ ''Dr. A'')]"
  using ask_question_answer [where llm = "\<lambda>_. Inr ''Dr. A''" and dist = "\<lambda>_ _. 0" and ds = sample_ds
      and c = sample_c768 and repr = "\<lambda>_. ''docs''" and q = "''Ketua jurusan ?''" and screen = "[]"
      and ctx = "[doc_with_id ''Ketua jurusan: Dr. A'' ''k1'']" and a = "''Dr. A''"]
  by (simp add: sample_about_retrieval)

definition sample_c1024 :: collection where
  "sample_c1024 = \<lparr>entries = [\<lparr>entry_id = id_update, entry_doc = doc_with_id ''Ketua jurusan'' ''k1''\<rparr>],
     dimension = Some 1024\<rparr>"

lemma sample_test_page:
  "test_page sample_c1024 =
     Inr \<lparr>entries = [\<lparr>entry_id = id_update, entry_doc = new_document\<rparr>], dimension = Some 1024\<rparr>"
  by (simp add: test_page_def chroma_update_document_def check_dim_def mxbai_def sample_c1024_def)

lemma sample_joins: "joins sample_ds sample_c1024"
  by (simp add: joins_def entry_doc_id_def sample_c1024_def sample_ds_def doc_with_id_def id_key_def)

theorem test_page_joins_witness:
  "joins sample_ds sample_c1024 \<and>
   \<not> joins sample_ds \<lparr>entries = [\<lparr>entry_id = id_update, entry_doc = new_document\<rparr>], dimension = Some 1024\<rparr>"
  using test_page_joins [OF sample_joins sample_test_page] sample_joins
  by (simp add: entry_ids_def sample_c1024_def sample_ds_def test_doc_id_def)

end
