(* ===== verification/Chat.thy ===== *)
theory Chat
  imports Retriever
begin

text \<open>
  The main chat page, \<open>src/Chatbot.py\<close>. Streamlit reruns the whole script on
  every interaction; what survives a run is \<open>st.session_state\<close>, here its only
  key \<open>chat_history\<close> (absent before the first run of the session). One run
  initialises the history (lines 77 and 78), draws the title (line 81), redraws
  every stored message (lines 87 to 89), and, when the user submitted a
  question, appends it, invokes the RAG chain (retrieval over the stores, then
  the Groq model), shows the answer one character at a time (lines 104 to 111)
  and appends the answer (line 113). The stores and the model are parameters of
  the run; the screen is the list of elements the run draws.
\<close>

section \<open>Session state and screen\<close>

record session =
  chat_history :: "py_dict list option"

definition session_init :: session where
  "session_init = \<lparr>chat_history = None\<rparr>"

datatype ui_event =
    Subheader string
  | ChatBubble string string
  | Placeholder string
  | SidebarContext "document list"
  | Notice string

text \<open>\<open>{"role": r, "content": c}\<close>\<close>

definition message :: "string \<Rightarrow> string \<Rightarrow> py_dict" where
  "message r c = [(''role'', r), (''content'', c)]"

text \<open>Line 81: the title starts with the robot emoji U+1F916, four bytes in UTF-8.\<close>

definition chatbot_title :: string where
  "chatbot_title = [CHR 0xF0, CHR 0x9F, CHR 0xA4, CHR 0x96] @ '' Chatbot Teknik Elektro Universitas Mataram''"

section \<open>One run of the script\<close>

text \<open>Lines 77 and 78.\<close>

definition init_history :: "session \<Rightarrow> session" where
  "init_history s = (case chat_history s of None \<Rightarrow> s\<lparr>chat_history := Some []\<rparr> | Some _ \<Rightarrow> s)"

text \<open>
  Lines 87 to 89: \<open>st.chat_message(chat_history["role"])\<close> and
  \<open>st.markdown(chat_history["content"])\<close> for each stored message; a missing
  key raises \<open>KeyError\<close>.
\<close>

fun render_history :: "py_dict list \<Rightarrow> error + ui_event list" where
  "render_history [] = Inr []"
| "render_history (m # ms) =
     (case py_getitem m ''role'' of
        Inl e \<Rightarrow> Inl e
      | Inr r \<Rightarrow> (case py_getitem m ''content'' of
          Inl e \<Rightarrow> Inl e
        | Inr c \<Rightarrow> (case render_history ms of
            Inl e \<Rightarrow> Inl e
          | Inr evs \<Rightarrow> Inr (ChatBubble r c # evs))))"

text \<open>
  Lines 104 to 111: \<open>typed_text += char; typing_placeholder.markdown(typed_text)\<close>
  for each character of the answer; the result is the sequence of texts the
  placeholder shows.
\<close>

fun typing_frames :: "string \<Rightarrow> string \<Rightarrow> string list" where
  "typing_frames typed [] = []"
| "typing_frames typed (c # cs) = (typed @ [c]) # typing_frames (typed @ [c]) cs"

text \<open>Lines 71 to 74: the page's RAG chain.\<close>

definition chatbot_rag_chain ::
  "chat_model \<Rightarrow> (string \<Rightarrow> string \<Rightarrow> nat) \<Rightarrow> docstore \<Rightarrow> collection \<Rightarrow> string \<Rightarrow> py_dict list \<Rightarrow> error + rag_response" where
  "chatbot_rag_chain llm dist ds c =
     retrieval_chain (mv_get_relevant_documents chatbot_retriever dist ds c) llm chatbot_qa_system_prompt"

text \<open>
  Lines 91 to 113, for a submitted question \<open>prompt\<close>: append the question,
  draw it, invoke the chain (an exception ends the run with the question already
  stored), show the context in the sidebar, type the answer, store the answer.
\<close>

definition chatbot_turn ::
  "chat_model \<Rightarrow> (string \<Rightarrow> string \<Rightarrow> nat) \<Rightarrow> docstore \<Rightarrow> collection \<Rightarrow> string \<Rightarrow>
   py_dict list \<Rightarrow> ui_event list \<Rightarrow> (session \<times> ui_event list) run" where
  "chatbot_turn llm dist ds c prompt h screen =
     (let h1 = h @ [message ''user'' prompt];
          screen1 = screen @ [ChatBubble ''user'' prompt]
      in case chatbot_rag_chain llm dist ds c prompt h1 of
           Inl e \<Rightarrow> Raised e (\<lparr>chat_history = Some h1\<rparr>, screen1)
         | Inr resp \<Rightarrow>
             Done (\<lparr>chat_history = Some (h1 @ [message ''assistant'' (rag_answer resp)])\<rparr>,
                   screen1 @ [SidebarContext (rag_context resp)]
                     @ map Placeholder (typing_frames [] (rag_answer resp))))"

text \<open>
  The whole script. \<open>st.chat_input\<close> returns \<open>None\<close> when nothing was
  submitted; the walrus test also treats an empty string as no question.
\<close>

definition chatbot_page ::
  "chat_model \<Rightarrow> (string \<Rightarrow> string \<Rightarrow> nat) \<Rightarrow> docstore \<Rightarrow> collection \<Rightarrow> string option \<Rightarrow>
   session \<Rightarrow> (session \<times> ui_event list) run" where
  "chatbot_page llm dist ds c input s =
     (let s1 = init_history s;
          h = the (chat_history s1);
          screen0 = [Subheader chatbot_title]
      in case render_history h of
           Inl e \<Rightarrow> Raised e (s1, screen0)
         | Inr bubbles \<Rightarrow>
             (case input of
                None \<Rightarrow> Done (s1, screen0 @ bubbles)
              | Some prompt \<Rightarrow>
                  if prompt = [] then Done (s1, screen0 @ bubbles)
                  else chatbot_turn llm dist ds c prompt h (screen0 @ bubbles)))"

section \<open>Well-formed histories\<close>

text \<open>
  What both chat pages store: dictionaries with exactly a \<open>role\<close> (\<open>user\<close> or
  \<open>assistant\<close>) and a \<open>content\<close>. Over a successful history the roles
  alternate, starting with the user and ending with the assistant.
\<close>

definition wf_message :: "py_dict \<Rightarrow> bool" where
  "wf_message m \<longleftrightarrow> (\<exists>r c. m = message r c \<and> (r = ''user'' \<or> r = ''assistant''))"

fun alternating :: "py_dict list \<Rightarrow> bool" where
  "alternating [] \<longleftrightarrow> True"
| "alternating [m] \<longleftrightarrow> False"
| "alternating (m1 # m2 # ms) \<longleftrightarrow>
     (\<exists>q a. m1 = message ''user'' q \<and> m2 = message ''assistant'' a) \<and> alternating ms"

section \<open>Lemmas\<close>

lemma message_keys [simp]:
  "map_of (message r c) ''role'' = Some r" "map_of (message r c) ''content'' = Some c"
  by (simp_all add: message_def)

lemma message_inject [simp]: "message r c = message r' c' \<longleftrightarrow> r = r' \<and> c = c'"
  by (simp add: message_def)

lemma render_history_wf:
  "\<forall>m \<in> set h. wf_message m \<Longrightarrow> \<exists>evs. render_history h = Inr evs \<and> length evs = length h"
  by (induction h) (auto simp: wf_message_def py_getitem_def)

lemma convert_messages_wf:
  "\<forall>m \<in> set h. wf_message m \<Longrightarrow> \<exists>hm. convert_messages h = Inr hm \<and> length hm = length h"
  by (induction h) (auto simp: wf_message_def convert_message_def)

lemma convert_messages_append:
  "convert_messages (xs @ ys) =
     (case convert_messages xs of Inl e \<Rightarrow> Inl e
      | Inr a \<Rightarrow> (case convert_messages ys of Inl e \<Rightarrow> Inl e | Inr b \<Rightarrow> Inr (a @ b)))"
  by (induction xs) (auto split: sum.splits)

lemma convert_user_message [simp]: "convert_messages [message ''user'' q] = Inr [HumanMessage q]"
  by (simp add: convert_message_def)

lemma typing_frames_eq:
  "typing_frames typed cs = map (\<lambda>i. typed @ take i cs) [1..<length cs + 1]"
proof (induction cs arbitrary: typed)
  case Nil
  then show ?case by simp
next
  case (Cons c cs)
  have "map (\<lambda>i. typed @ take i (c # cs)) [1..<length (c # cs) + 1]
        = (typed @ [c]) # map (\<lambda>i. (typed @ [c]) @ take i cs) [1..<length cs + 1]"
    by (simp add: upt_conv_Cons map_Suc_upt [symmetric] del: upt_Suc)
  with Cons.IH show ?case by simp
qed

lemma chatbot_page_Some_history:
  "chat_history s = Some h \<Longrightarrow> init_history s = s"
  by (simp add: init_history_def)

text \<open>
  C7. The chain of the main chat page, invoked as the page invokes it (the
  history already ending with the new question), retrieves with the question
  alone and sends the model the system prompt with the joined context, the
  converted history, and then the question a second time as the human message.
\<close>

theorem chatbot_rag_chain_messages:
  "chatbot_rag_chain llm dist ds c p (h @ [message ''user'' p]) =
     (case mv_get_relevant_documents chatbot_retriever dist ds c p of
        Inl e \<Rightarrow> Inl e
      | Inr docs \<Rightarrow>
          (case convert_messages h of
             Inl e \<Rightarrow> Inl e
           | Inr hm \<Rightarrow>
               (case llm ([SystemMessage (chatbot_qa_preamble @ format_docs docs)] @ hm
                          @ [HumanMessage p, HumanMessage p]) of
                  Inl e \<Rightarrow> Inl e
                | Inr a \<Rightarrow> Inr \<lparr>rag_answer = a, rag_context = docs\<rparr>)))"
proof (cases "mv_get_relevant_documents chatbot_retriever dist ds c p")
  case (Inl e)
  then show ?thesis by (simp add: chatbot_rag_chain_def retrieval_chain_def)
next
  case (Inr docs)
  show ?thesis
  proof (cases "convert_messages h")
    case (Inl e)
    with Inr show ?thesis
      by (simp add: chatbot_rag_chain_def retrieval_chain_def qa_prompt_messages_def convert_messages_append)
  next
    case (Inr hm)
    then have conv: "convert_messages (h @ [message ''user'' p]) = Inr (hm @ [HumanMessage p])"
      by (simp only: convert_messages_append convert_user_message) simp
    with \<open>mv_get_relevant_documents chatbot_retriever dist ds c p = Inr docs\<close> Inr show ?thesis
      by (simp add: chatbot_rag_chain_def retrieval_chain_def qa_prompt_messages_def
          chatbot_system_prompt_format)
  qed
qed

text \<open>
  C8. A run with a question on a well-formed history whose chain call succeeds
  stores the question and then the answer, and the last text the typing
  placeholder shows is the whole answer.
\<close>

theorem chatbot_page_answer:
  assumes "chat_history s = Some h" and "\<forall>m \<in> set h. wf_message m" and "p \<noteq> []"
    and "chatbot_rag_chain llm dist ds c p (h @ [message ''user'' p]) = Inr resp"
    and "rag_answer resp \<noteq> []"
  shows "\<exists>scr. chatbot_page llm dist ds c (Some p) s =
           Done (\<lparr>chat_history = Some (h @ [message ''user'' p, message ''assistant'' (rag_answer resp)])\<rparr>, scr)
         \<and> last scr = Placeholder (rag_answer resp)"
proof -
  obtain evs where r: "render_history h = Inr evs" using render_history_wf [OF assms(2)] by blast
  have len: "Suc 0 \<le> length (rag_answer resp)" using assms(5) by (cases "rag_answer resp") auto
  have "typing_frames [] (rag_answer resp) \<noteq> []" and "last (typing_frames [] (rag_answer resp)) = rag_answer resp"
    using len by (simp_all add: typing_frames_eq last_map)
  with assms r show ?thesis
    by (simp add: chatbot_page_def chatbot_turn_def chatbot_page_Some_history last_map)
qed

text \<open>
  C9. When the chain raises (retrieval, history conversion or the model), the
  run ends with the question stored and no answer: the history keeps a user
  message without reply.
\<close>

theorem chatbot_page_chain_error:
  assumes "chat_history s = Some h" and "\<forall>m \<in> set h. wf_message m" and "p \<noteq> []"
    and "chatbot_rag_chain llm dist ds c p (h @ [message ''user'' p]) = Inl e"
  shows "\<exists>scr. chatbot_page llm dist ds c (Some p) s =
           Raised e (\<lparr>chat_history = Some (h @ [message ''user'' p])\<rparr>, scr)"
proof -
  obtain evs where r: "render_history h = Inr evs" using render_history_wf [OF assms(2)] by blast
  with assms show ?thesis
    by (simp add: chatbot_page_def chatbot_turn_def chatbot_page_Some_history)
qed

lemma alternating_append:
  "alternating xs \<Longrightarrow> alternating (xs @ [message ''user'' q, message ''assistant'' a])"
  by (induction xs rule: alternating.induct) auto

text \<open>
  C10. A run that ends normally keeps the history alternating user and
  assistant messages: a question is stored only together with its answer.
\<close>

theorem chatbot_page_alternating:
  assumes "chatbot_page llm dist ds c input s = Done (s', scr)"
    and "chat_history s = Some h" and "alternating h"
  shows "\<exists>h'. chat_history s' = Some h' \<and> alternating h'"
  using assms
  by (auto simp: chatbot_page_def chatbot_turn_def chatbot_page_Some_history Let_def alternating_append
      split: sum.splits option.splits if_splits)

text \<open>
  C11. The typing loop shows one growing prefix of the answer per character, so
  it shows exactly as many texts as the answer has characters, every one a
  prefix of the answer, the last one the answer itself.
\<close>

theorem typing_frames_answer:
  assumes "a \<noteq> []"
  shows "length (typing_frames [] a) = length a \<and> (\<forall>f \<in> set (typing_frames [] a). prefix f a)
         \<and> last (typing_frames [] a) = a"
proof -
  have "Suc 0 \<le> length a" using assms by (cases a) auto
  then show ?thesis by (auto simp: typing_frames_eq last_map take_is_prefix)
qed

section \<open>Sample runs\<close>

text \<open>A question on an empty collection: no context, the model's outcome passed through.\<close>

lemma chatbot_rag_chain_empty:
  "chatbot_rag_chain (\<lambda>_. r) dist ds empty_collection p [message ''user'' p] =
     (case r of Inl e \<Rightarrow> Inl e | Inr a \<Rightarrow> Inr \<lparr>rag_answer = a, rag_context = []\<rparr>)"
  by (simp add: chatbot_rag_chain_def retrieval_chain_def qa_prompt_messages_def
      mv_get_relevant_documents_def vector_hits_similarity chroma_similarity_search_def
      empty_collection_def docstore_mget_def List.map_filter_simps convert_message_def
      split: sum.split)

theorem chatbot_page_answer_witness:
  "\<exists>scr. chatbot_page (\<lambda>_. Inr ''Pak X'') (\<lambda>_ _. 0) Map.empty empty_collection (Some ''Sekjur ?'')
          \<lparr>chat_history = Some []\<rparr> =
        Done (\<lparr>chat_history = Some [message ''user'' ''Sekjur ?'', message ''assistant'' ''Pak X'']\<rparr>, scr)
      \<and> last scr = Placeholder ''Pak X''"
  using chatbot_page_answer [where s = "\<lparr>chat_history = Some []\<rparr>" and h = "[]" and p = "''Sekjur ?''"
      and llm = "\<lambda>_. Inr ''Pak X''" and dist = "\<lambda>_ _. 0" and ds = Map.empty and c = empty_collection
      and resp = "\<lparr>rag_answer = ''Pak X'', rag_context = []\<rparr>"]
  by (simp add: chatbot_rag_chain_empty)

theorem chatbot_page_chain_error_witness:
  "\<exists>scr. chatbot_page (\<lambda>_. Inl (ServiceError ''down'')) (\<lambda>_ _. 0) Map.empty empty_collection (Some ''Sekjur ?'')
          \<lparr>chat_history = Some []\<rparr> =
        Raised (ServiceError ''down'') (\<lparr>chat_history = Some [message ''user'' ''Sekjur ?'']\<rparr>, scr)"
  using chatbot_page_chain_error [where s = "\<lparr>chat_history = Some []\<rparr>" and h = "[]" and p = "''Sekjur ?''"
      and llm = "\<lambda>_. Inl (ServiceError ''down'')" and dist = "\<lambda>_ _. 0" and ds = Map.empty and c = empty_collection
      and e = "ServiceError ''down''"]
  by (simp add: chatbot_rag_chain_empty)

lemma chatbot_page_sample_run:
  "chatbot_page (\<lambda>_. Inr ''ok'') (\<lambda>_ _. 0) Map.empty empty_collection (Some ''Sekjur ?'') \<lparr>chat_history = Some []\<rparr> =
     Done (\<lparr>chat_history = Some [message ''user'' ''Sekjur ?'', message ''assistant'' ''ok'']\<rparr>,
           [Subheader chatbot_title, ChatBubble ''user'' ''Sekjur ?'', SidebarContext [],
            Placeholder ''o'', Placeholder ''ok''])"
  by (simp add: chatbot_page_def chatbot_turn_def chatbot_rag_chain_empty init_history_def Let_def)

theorem chatbot_page_alternating_witness:
  "\<exists>h'. chat_history \<lparr>chat_history = Some [message ''user'' ''Sekjur ?'', message ''assistant'' ''ok'']\<rparr> = Some h'
      \<and> alternating h'"
  using chatbot_page_alternating [OF chatbot_page_sample_run] by simp

theorem typing_frames_answer_witness:
  "length (typing_frames [] ''ok'') = 2 \<and> prefix (hd (typing_frames [] ''ok'')) ''ok''
   \<and> last (typing_frames [] ''ok'') = ''ok''"
  using typing_frames_answer [of "''ok''"] by simp

end
