(* ===== verification/Chat_Local.thy ===== *)
theory Chat_Local
  imports Chat
begin

text \<open>
  The local chat page, \<open>src/pages/2Chat Local.py\<close>. It reads and writes the
  same \<open>st.session_state.chat_history\<close> as the main page (Streamlit keeps one
  session state for all pages of an app). It differs from the main page in
  three ways: stored messages without \<open>role\<close> or \<open>content\<close> are reported
  instead of raising (lines 84 to 89); the chain uses the nomic embedder, the
  default similarity search and a local Ollama model (lines 26 to 71); and the
  answer is typed word by word (lines 114 to 119), the stored reply being the
  typed text \<open>full_response\<close>, not the model's answer (line 122).
\<close>

section \<open>One run of the script\<close>

text \<open>Lines 84 to 89; the notice's f-string also prints the offending dictionary, which is not modelled.\<close>

fun render_local :: "py_dict list \<Rightarrow> ui_event list" where
  "render_local [] = []"
| "render_local (m # ms) =
     (case (map_of m ''role'', map_of m ''content'') of
        (Some r, Some c) \<Rightarrow> ChatBubble r c
      | _ \<Rightarrow> Notice ''Invalid message format'') # render_local ms"

text \<open>
  Lines 114 to 119: \<open>for chunk in response["answer"].split(): full_response +=
  chunk + " "\<close>, each step showing the text with the cursor \<open>\<bar>\<close> (U+258C,
  three bytes in UTF-8). The result is the frames shown and the final text.
\<close>

definition cursor :: string where
  "cursor = [CHR 0xE2, CHR 0x96, CHR 0x8C]"

fun word_typing :: "string \<Rightarrow> string list \<Rightarrow> string list \<times> string" where
  "word_typing full [] = ([], full)"
| "word_typing full (w # ws) =
     (let full' = full @ w @ '' ''; (frames, final) = word_typing full' ws
      in ((full' @ cursor) # frames, final))"

definition full_response :: "string \<Rightarrow> string" where
  "full_response answer = snd (word_typing [] (py_split answer))"

definition local_rag_chain ::
  "chat_model \<Rightarrow> (string \<Rightarrow> string \<Rightarrow> nat) \<Rightarrow> docstore \<Rightarrow> collection \<Rightarrow> string \<Rightarrow> py_dict list \<Rightarrow> error + rag_response" where
  "local_rag_chain llm dist ds c =
     retrieval_chain (mv_get_relevant_documents local_retriever dist ds c) llm local_qa_system_prompt"

definition local_title :: string where
  "local_title = chatbot_title"

text \<open>Lines 92 to 123.\<close>

definition local_turn ::
  "chat_model \<Rightarrow> (string \<Rightarrow> string \<Rightarrow> nat) \<Rightarrow> docstore \<Rightarrow> collection \<Rightarrow> string \<Rightarrow>
   py_dict list \<Rightarrow> ui_event list \<Rightarrow> (session \<times> ui_event list) run" where
  "local_turn llm dist ds c user_input h screen =
     (let h1 = h @ [message ''user'' user_input];
          screen1 = screen @ [ChatBubble ''user'' user_input]
      in case local_rag_chain llm dist ds c user_input h1 of
           Inl e \<Rightarrow> Raised e (\<lparr>chat_history = Some h1\<rparr>, screen1)
         | Inr resp \<Rightarrow>
             (let (frames, full) = word_typing [] (py_split (rag_answer resp))
              in Done (\<lparr>chat_history = Some (h1 @ [message ''assistant'' full])\<rparr>,
                       screen1 @ map Placeholder frames @ [Placeholder full])))"

text \<open>Lines 73 to 123; line 81 shows the raw history in the sidebar.\<close>

definition local_page ::
  "chat_model \<Rightarrow> (string \<Rightarrow> string \<Rightarrow> nat) \<Rightarrow> docstore \<Rightarrow> collection \<Rightarrow> string option \<Rightarrow>
   session \<Rightarrow> (session \<times> ui_event list) run" where
  "local_page llm dist ds c input s =
     (let s1 = init_history s;
          h = the (chat_history s1);
          screen0 = [Subheader local_title, Notice ''Chat History Structure:''] @ render_local h
      in case input of
           None \<Rightarrow> Done (s1, screen0)
         | Some user_input \<Rightarrow>
             if user_input = [] then Done (s1, screen0)
             else local_turn llm dist ds c user_input h screen0)"

section \<open>Lemmas\<close>

lemma word_typing_final:
  "snd (word_typing full ws) = full @ words_spaced ws"
  by (induction ws arbitrary: full) (simp_all add: words_spaced_def split_def Let_def)

lemma word_typing_frames:
  "fst (word_typing full ws) = map (\<lambda>k. full @ words_spaced (take k ws) @ cursor) [1..<length ws + 1]"
proof (induction ws arbitrary: full)
  case Nil
  then show ?case by simp
next
  case (Cons w ws)
  have "map (\<lambda>k. full @ words_spaced (take k (w # ws)) @ cursor) [1..<length (w # ws) + 1]
        = (full @ w @ '' '' @ cursor) # map (\<lambda>k. (full @ w @ '' '') @ words_spaced (take k ws) @ cursor) [1..<length ws + 1]"
    by (simp add: upt_conv_Cons map_Suc_upt [symmetric] words_spaced_def del: upt_Suc)
  with Cons.IH show ?case by (simp add: split_def Let_def)
qed

lemma full_response_words_spaced: "full_response a = words_spaced (py_split a)"
  by (simp add: full_response_def word_typing_final)

lemma local_turn_history:
  "local_turn llm dist ds c q h scr = Done (s', scr') \<Longrightarrow>
   \<exists>resp. chat_history s' = Some (h @ [message ''user'' q, message ''assistant'' (full_response (rag_answer resp))])
     \<and> local_rag_chain llm dist ds c q (h @ [message ''user'' q]) = Inr resp"
  by (auto simp: local_turn_def full_response_def Let_def split: sum.splits prod.splits)

lemma local_page_retrieval_error:
  "chat_history sess = Some h \<Longrightarrow> q \<noteq> [] \<Longrightarrow> mv_get_relevant_documents local_retriever dist ds c q = Inl e \<Longrightarrow>
   local_page llm dist ds c (Some q) sess =
     Raised e (\<lparr>chat_history = Some (h @ [message ''user'' q])\<rparr>,
               [Subheader local_title, Notice ''Chat History Structure:''] @ render_local h @ [ChatBubble ''user'' q])"
  by (simp add: local_page_def local_turn_def chatbot_page_Some_history local_rag_chain_def retrieval_chain_def)

text \<open>
  Both chat pages share \<open>st.session_state.chat_history\<close>; stored messages stay
  well formed whichever page runs.
\<close>

definition sess_wf :: "session \<Rightarrow> bool" where
  "sess_wf s \<longleftrightarrow> (\<forall>h. chat_history s = Some h \<longrightarrow> (\<forall>m \<in> set h. wf_message m))"

lemma wf_message_message [simp]: "wf_message (message r c) \<longleftrightarrow> r = ''user'' \<or> r = ''assistant''"
  by (auto simp: wf_message_def)

lemma sess_wf_init_history: "sess_wf s \<Longrightarrow> sess_wf (init_history s)"
  by (auto simp: sess_wf_def init_history_def split: option.splits)

lemma sess_wf_history: "sess_wf s \<Longrightarrow> \<forall>m \<in> set (the (chat_history (init_history s))). wf_message m"
  by (auto simp: sess_wf_def init_history_def split: option.splits)

lemma chatbot_page_wf: "sess_wf s \<Longrightarrow> sess_wf (fst (run_state (chatbot_page llm dist ds c input s)))"
  using sess_wf_init_history [of s] sess_wf_history [of s]
  by (auto simp: chatbot_page_def chatbot_turn_def sess_wf_def Let_def split: sum.splits option.splits)

lemma local_page_wf: "sess_wf s \<Longrightarrow> sess_wf (fst (run_state (local_page llm dist ds c input s)))"
  using sess_wf_init_history [of s] sess_wf_history [of s]
  by (auto simp: local_page_def local_turn_def sess_wf_def Let_def split: sum.splits option.splits prod.splits)

lemma render_local_wf:
  "\<forall>m \<in> set h. wf_message m \<Longrightarrow> Notice ''Invalid message format'' \<notin> set (render_local h)"
  by (induction h) (auto simp: wf_message_def)

text \<open>
  C12. The reply the local page stores is the answer's words, each followed by
  one blank: splitting it again gives exactly the answer's words, but every run
  of whitespace in the answer (newlines of a markdown table, indentation)
  becomes a single blank and a blank is added at the end.
\<close>

theorem local_reply_words:
  "full_response a = words_spaced (py_split a) \<and> py_split (full_response a) = py_split a"
  using py_split_words [of _ a] by (simp add: full_response_words_spaced py_split_words_spaced)

text \<open>
  C13. The local page shows one frame per word of the answer: the \<open>k\<close>-th
  frame is the first \<open>k\<close> words, each followed by a blank, and the cursor.
\<close>

theorem local_typing_frames:
  "fst (word_typing [] (py_split a)) =
     map (\<lambda>k. words_spaced (take k (py_split a)) @ cursor) [1..<length (py_split a) + 1]"
  by (simp add: word_typing_frames)

section \<open>The conversation log both pages promise\<close>

text \<open>
  The abstract view of a history: the log of question and answer pairs. On an
  alternating history it reads each user message with the assistant message
  after it; a page run that answers a question should append exactly that
  pair to the log.
\<close>

fun qa_pairs :: "py_dict list \<Rightarrow> (string \<times> string) list" where
  "qa_pairs (m1 # m2 # ms) = (the (map_of m1 ''content''), the (map_of m2 ''content'')) # qa_pairs ms"
| "qa_pairs _ = []"

lemma qa_pairs_append:
  "alternating xs \<Longrightarrow> qa_pairs (xs @ [message ''user'' q, message ''assistant'' a]) = qa_pairs xs @ [(q, a)]"
  by (induction xs rule: alternating.induct) auto

lemma local_page_answered:
  assumes "chat_history s = Some h" and "p \<noteq> []" and "local_page llm dist ds c (Some p) s = Done (s', scr)"
  shows "\<exists>resp. local_rag_chain llm dist ds c p (h @ [message ''user'' p]) = Inr resp
           \<and> chat_history s' = Some (h @ [message ''user'' p, message ''assistant'' (full_response (rag_answer resp))])"
proof -
  have "local_turn llm dist ds c p h ([Subheader local_title, Notice ''Chat History Structure:''] @ render_local h)
          = Done (s', scr)"
    using assms by (simp add: local_page_def chatbot_page_Some_history)
  from local_turn_history [OF this] show ?thesis by blast
qed

text \<open>
  C22. The local chat page refines the log of question and answer pairs
  (\<open>qa_pairs\<close>) only up to its re-typing of the answer: a run that answers a
  question on an alternating history keeps it alternating, and the pair it
  appends holds \<open>full_response\<close> of the chain's
  answer, the words re-joined with blanks.
\<close>

theorem local_page_refines_log:
  assumes "chat_history s = Some h" and "alternating h" and "p \<noteq> []"
    and "local_page llm dist ds c (Some p) s = Done (s', scr)"
  shows "\<exists>resp. local_rag_chain llm dist ds c p (h @ [message ''user'' p]) = Inr resp
           \<and> alternating (the (chat_history s'))
           \<and> qa_pairs (the (chat_history s')) = qa_pairs h @ [(p, full_response (rag_answer resp))]"
  using local_page_answered [OF assms(1,3,4)] alternating_append [OF assms(2)] qa_pairs_append [OF assms(2)]
  by auto

lemma chatbot_rag_chain_history:
  assumes "convert_messages h = Inr hm"
  shows "chatbot_rag_chain llm dist ds c p (h @ [message ''user'' p]) =
     (case mv_get_relevant_documents chatbot_retriever dist ds c p of
        Inl e \<Rightarrow> Inl e
      | Inr docs \<Rightarrow>
          (case llm ([SystemMessage (chatbot_qa_preamble @ format_docs docs)] @ hm @ [HumanMessage p, HumanMessage p]) of
             Inl e \<Rightarrow> Inl e
           | Inr a \<Rightarrow> Inr \<lparr>rag_answer = a, rag_context = docs\<rparr>))"
proof -
  have conv: "convert_messages (h @ [message ''user'' p]) = Inr (hm @ [HumanMessage p])"
    using assms by (simp only: convert_messages_append convert_user_message) simp
  show ?thesis
    by (simp add: chatbot_rag_chain_def retrieval_chain_def qa_prompt_messages_def conv
        chatbot_system_prompt_format split: sum.split)
qed

lemma convert_assistant_message [simp]: "convert_messages [message ''assistant'' a] = Inr [AIMessage a]"
  by (simp add: convert_message_def)

text \<open>
  C29. The two chat pages interleave on one session: after the local page
  answers a question, a question on the main page sends its model the local
  page's re-typed \<open>full_response\<close> as the assistant turn, between the earlier
  question and the new one (itself sent twice).
\<close>

theorem pages_interleave:
  assumes "chat_history s = Some h" and "convert_messages h = Inr hm" and "p \<noteq> []"
    and "local_page llm1 dist ds c (Some p) s = Done (s1, scr1)"
  shows "\<exists>resp. local_rag_chain llm1 dist ds c p (h @ [message ''user'' p]) = Inr resp
           \<and> chatbot_rag_chain llm2 dist ds c p2 (the (chat_history s1) @ [message ''user'' p2]) =
             (case mv_get_relevant_documents chatbot_retriever dist ds c p2 of
                Inl e \<Rightarrow> Inl e
              | Inr docs \<Rightarrow>
                  (case llm2 ([SystemMessage (chatbot_qa_preamble @ format_docs docs)] @ hm
                              @ [HumanMessage p, AIMessage (full_response (rag_answer resp)),
                                 HumanMessage p2, HumanMessage p2]) of
                     Inl e \<Rightarrow> Inl e
                   | Inr a \<Rightarrow> Inr \<lparr>rag_answer = a, rag_context = docs\<rparr>))"
proof -
  obtain resp where r: "local_rag_chain llm1 dist ds c p (h @ [message ''user'' p]) = Inr resp"
    and h1: "chat_history s1 = Some (h @ [message ''user'' p, message ''assistant'' (full_response (rag_answer resp))])"
    using local_page_answered [OF assms(1,3,4)] by blast
  have "convert_messages (h @ [message ''user'' p, message ''assistant'' (full_response (rag_answer resp))]) =
          Inr (hm @ [HumanMessage p, AIMessage (full_response (rag_answer resp))])"
    using assms(2) by (simp add: convert_messages_append convert_message_def)
  from chatbot_rag_chain_history [OF this, of llm2 dist ds c p2] r h1 show ?thesis
    by (auto cong: sum.case_cong)
qed

section \<open>Sample runs\<close>

lemma local_rag_chain_empty:
  "local_rag_chain (\<lambda>_. r) dist ds empty_collection p [message ''user'' p] =
     (case r of Inl e \<Rightarrow> Inl e | Inr a \<Rightarrow> Inr \<lparr>rag_answer = a, rag_context = []\<rparr>)"
  by (simp add: local_rag_chain_def retrieval_chain_def qa_prompt_messages_def
      mv_get_relevant_documents_def vector_hits_similarity chroma_similarity_search_def
      empty_collection_def docstore_mget_def List.map_filter_simps convert_message_def
      split: sum.split)

lemma local_page_sample_run:
  "local_page (\<lambda>_. Inr ''ok'') (\<lambda>_ _. 0) Map.empty empty_collection (Some ''Sekjur ?'') \<lparr>chat_history = Some []\<rparr> =
     Done (\<lparr>chat_history = Some [message ''user'' ''Sekjur ?'', message ''assistant'' ''ok '']\<rparr>,
           [Subheader local_title, Notice ''Chat History Structure:'', ChatBubble ''user'' ''Sekjur ?'',
            Placeholder (''ok '' @ cursor), Placeholder ''ok ''])"
  by (simp add: local_page_def local_turn_def local_rag_chain_empty init_history_def Let_def
      py_split_def is_py_space_def)

theorem local_page_refines_log_witness:
  "alternating [message ''user'' ''Sekjur ?'', message ''assistant'' ''ok '']
   \<and> qa_pairs [message ''user'' ''Sekjur ?'', message ''assistant'' ''ok ''] = [(''Sekjur ?'', full_response ''ok'')]"
  using local_page_refines_log [where h = "[]", OF _ _ _ local_page_sample_run]
  by (simp add: local_rag_chain_empty)

theorem pages_interleave_witness:
  "\<exists>resp. local_rag_chain (\<lambda>_. Inr ''ok'') (\<lambda>_ _. 0) Map.empty empty_collection ''Sekjur ?''
            ([] @ [message ''user'' ''Sekjur ?'']) = Inr resp
     \<and> chatbot_rag_chain (\<lambda>_. Inr ''ya'') (\<lambda>_ _. 0) Map.empty empty_collection ''Ketua ?''
         (the (chat_history \<lparr>chat_history = Some [message ''user'' ''Sekjur ?'', message ''assistant'' ''ok '']\<rparr>)
          @ [message ''user'' ''Ketua ?'']) =
       (case mv_get_relevant_documents chatbot_retriever (\<lambda>_ _. 0) Map.empty empty_collection ''Ketua ?'' of
          Inl e \<Rightarrow> Inl e
        | Inr docs \<Rightarrow>
            (case (\<lambda>_. Inr ''ya'') ([SystemMessage (chatbot_qa_preamble @ format_docs docs)] @ []
                        @ [HumanMessage ''Sekjur ?'', AIMessage (full_response (rag_answer resp)),
                           HumanMessage ''Ketua ?'', HumanMessage ''Ketua ?'']) of
               Inl e \<Rightarrow> Inl e
             | Inr a \<Rightarrow> Inr \<lparr>rag_answer = a, rag_context = docs\<rparr>))"
  by (rule pages_interleave [where h = "[]", OF _ _ _ local_page_sample_run]) simp_all

end
