(* ===== verification/Env.thy ===== *)
theory Env
  imports Knowledge Pages Chat_Local
begin

text \<open>
  The process environment and the Groq clients. Streamlit runs every page in
  one Python process, so \<open>os.environ\<close> is shared state: only the knowledge
  page loads the \<open>.env\<close> file (\<open>src/pages/3Knowlage.py\<close>, line 31), and each
  page that builds a \<open>ChatGroq\<close> client reads its key from its own variable
  (\<open>GROQ_API2\<close> for the main chat page, \<open>GROQ_API\<close> for the About page and
  the summary chain). A client without a key raises when it is built, which
  the main chat and About pages do at import time, before any question.
\<close>

section \<open>The environment\<close>

type_synonym environ = "string \<rightharpoonup> string"

text \<open>
  \<open>load_dotenv(find_dotenv())\<close> with the default \<open>override=False\<close>: every
  variable of the file that the process does not define yet is added.
\<close>

definition load_dotenv :: "environ \<Rightarrow> environ \<Rightarrow> environ" where
  "load_dotenv dotenv env = dotenv ++ env"

definition knowledge_env :: "environ \<Rightarrow> environ \<Rightarrow> environ" where
  "knowledge_env dotenv env = load_dotenv dotenv env"

section \<open>Groq clients\<close>

record groq_config =
  groq_model :: string
  groq_temperature :: "nat option"
  groq_key_var :: string

text \<open>\<open>src/Chatbot.py\<close>, lines 46 to 50.\<close>

definition chatbot_groq :: groq_config where
  "chatbot_groq = \<lparr>groq_model = ''llama3-8b-8192'', groq_temperature = Some 0, groq_key_var = ''GROQ_API2''\<rparr>"

text \<open>\<open>src/pages/4About.py\<close>, lines 49 to 53.\<close>

definition about_groq :: groq_config where
  "about_groq = \<lparr>groq_model = ''llama3-8b-8192'', groq_temperature = Some 0, groq_key_var = ''GROQ_API''\<rparr>"

text \<open>\<open>src/pages/3Knowlage.py\<close>, lines 95 to 97 (default temperature).\<close>

definition summary_groq :: groq_config where
  "summary_groq = \<lparr>groq_model = ''llama3-8b-8192'', groq_temperature = None, groq_key_var = ''GROQ_API''\<rparr>"

text \<open>
  \<open>ChatGroq(api_key=os.getenv(var))\<close>: an unset variable passes \<open>None\<close>, and
  the client then falls back to \<open>GROQ_API_KEY\<close>; with neither it refuses to
  be built.
\<close>

definition groq_api_key :: "environ \<Rightarrow> groq_config \<Rightarrow> string option" where
  "groq_api_key env cfg = (case env (groq_key_var cfg) of Some k \<Rightarrow> Some k | None \<Rightarrow> env ''GROQ_API_KEY'')"

definition groq_missing :: error where
  "groq_missing = ValueError ''Did not find groq_api_key, please add an environment variable GROQ_API_KEY''"

definition chat_groq :: "environ \<Rightarrow> groq_config \<Rightarrow> error + unit" where
  "chat_groq env cfg = (case groq_api_key env cfg of None \<Rightarrow> Inl groq_missing | Some _ \<Rightarrow> Inr ())"

section \<open>The pages with their clients\<close>

text \<open>
  \<open>src/Chatbot.py\<close>: the client is built at line 46, before the session state
  is touched and before anything is shown.
\<close>

definition chatbot_app ::
  "environ \<Rightarrow> chat_model \<Rightarrow> (string \<Rightarrow> string \<Rightarrow> nat) \<Rightarrow> docstore \<Rightarrow> collection \<Rightarrow> string option \<Rightarrow>
   session \<Rightarrow> (session \<times> ui_event list) run" where
  "chatbot_app env llm dist ds c input s =
     (case chat_groq env chatbot_groq of
        Inl e \<Rightarrow> Raised e (s, [])
      | Inr _ \<Rightarrow> chatbot_page llm dist ds c input s)"

text \<open>
  \<open>src/pages/4About.py\<close>: the document count is written at line 39, the
  client is built at line 49, then the four questions run.
\<close>

definition about_app ::
  "environ \<Rightarrow> chat_model \<Rightarrow> (string \<Rightarrow> string \<Rightarrow> nat) \<Rightarrow> docstore \<Rightarrow> collection \<Rightarrow> doc_repr \<Rightarrow>
   about_event list run" where
  "about_app env llm dist ds c repr =
     (case chat_groq env about_groq of
        Inl e \<Rightarrow> Raised e [WriteCount about_count_label (length chroma_get_keys)]
      | Inr _ \<Rightarrow> about_page llm dist ds c repr)"

text \<open>
  \<open>src/pages/3Knowlage.py\<close>: line 31 loads \<open>.env\<close> on every run; for a new
  upload the file is saved (line 53), partitioned (line 57) and categorised,
  and only then is the summary client built (line 95). Without a key the run
  raises there, with nothing but the file recorded; with one, the run is the
  script of \<open>Knowledge\<close>. The environment the run leaves is returned with
  it, since it is the process's.
\<close>

definition knowledge_app ::
  "environ \<Rightarrow> environ \<Rightarrow> chat_model \<Rightarrow> partitioner \<Rightarrow> (string \<times> string) option \<Rightarrow> kb_state \<Rightarrow>
   environ \<times> (kb_state \<times> kb_event list) run" where
  "knowledge_app dotenv env llm partition_pdf upload s =
     (let env' = knowledge_env dotenv env in
      (env',
       case chat_groq env' summary_groq of
         Inr _ \<Rightarrow> knowledge_script llm partition_pdf upload s
       | Inl e \<Rightarrow>
           (case upload of
              None \<Rightarrow> knowledge_script llm partition_pdf upload s
            | Some (name, bytes) \<Rightarrow>
                if pdf_path name \<in> dom (pdf_files s) then knowledge_script llm partition_pdf upload s
                else (let s0 = s\<lparr>pdf_files := (pdf_files s)(pdf_path name \<mapsto> bytes)\<rparr>
                      in case partition_pdf bytes of
                           Inl e' \<Rightarrow> Raised e' (s0, upload_status upload s)
                         | Inr _ \<Rightarrow> Raised e (s0, upload_status upload s)))))"

section \<open>Lemmas\<close>

lemma chat_groq_Inr_iff: "chat_groq env cfg = Inr u \<longleftrightarrow> groq_api_key env cfg \<noteq> None"
  by (auto simp: chat_groq_def split: option.split)

lemma chat_groq_Inl_iff: "chat_groq env cfg = Inl e \<longleftrightarrow> groq_api_key env cfg = None \<and> e = groq_missing"
  by (auto simp: chat_groq_def split: option.split)

lemma groq_api_key_None:
  "groq_api_key env cfg = None \<longleftrightarrow> env (groq_key_var cfg) = None \<and> env ''GROQ_API_KEY'' = None"
  by (simp add: groq_api_key_def split: option.split)

lemma knowledge_env_keeps: "env x = Some v \<Longrightarrow> knowledge_env dotenv env x = Some v"
  by (simp add: knowledge_env_def load_dotenv_def)

lemma knowledge_env_adds: "env x = None \<Longrightarrow> knowledge_env dotenv env x = dotenv x"
  by (simp add: knowledge_env_def load_dotenv_def map_add_def split: option.split)

lemma chatbot_app_key:
  "chatbot_app env llm dist ds c input s =
     (if groq_api_key env chatbot_groq = None then Raised groq_missing (s, []) else chatbot_page llm dist ds c input s)"
  by (auto simp: chatbot_app_def chat_groq_def split: option.split)

lemma about_app_key:
  "about_app env llm dist ds c repr =
     (if groq_api_key env about_groq = None
      then Raised groq_missing [WriteCount about_count_label (length chroma_get_keys)]
      else about_page llm dist ds c repr)"
  by (auto simp: about_app_def chat_groq_def split: option.split)

text \<open>
  C24. The main chat page depends on the knowledge page having run: when the
  Groq key exists only in the \<open>.env\<close> file, the main page raises before
  showing anything in a fresh process, and runs normally once the knowledge
  page has loaded the file into the process environment.
\<close>

theorem chatbot_needs_dotenv:
  assumes "env ''GROQ_API2'' = None" and "env ''GROQ_API_KEY'' = None" and "dotenv ''GROQ_API2'' = Some k"
  shows "chatbot_app env llm dist ds c input s = Raised groq_missing (s, [])
         \<and> chatbot_app (knowledge_env dotenv env) llm dist ds c input s = chatbot_page llm dist ds c input s"
  using assms knowledge_env_adds [where env = env and x = "''GROQ_API2''" and dotenv = dotenv, OF assms(1)]
  by (simp add: chatbot_app_key groq_api_key_def chatbot_groq_def)

theorem chatbot_needs_dotenv_witness:
  "chatbot_app Map.empty (\<lambda>_. Inr ''ok'') (\<lambda>_ _. 0) Map.empty empty_collection None session_init
     = Raised groq_missing (session_init, [])
   \<and> chatbot_app (knowledge_env [''GROQ_API2'' \<mapsto> ''k''] Map.empty) (\<lambda>_. Inr ''ok'') (\<lambda>_ _. 0) Map.empty
       empty_collection None session_init
     = chatbot_page (\<lambda>_. Inr ''ok'') (\<lambda>_ _. 0) Map.empty empty_collection None session_init"
  using chatbot_needs_dotenv [where env = Map.empty and dotenv = "[''GROQ_API2'' \<mapsto> ''k'']" and k = "''k''"]
  by simp

text \<open>
  C25. The pages read different key variables: with only \<open>GROQ_API\<close> set
  (and no \<open>GROQ_API_KEY\<close>), the About page and the summary chain of the
  knowledge page build their clients, but the main chat page, which reads
  \<open>GROQ_API2\<close>, raises before showing anything.
\<close>

theorem groq_key_variables_differ:
  assumes "env ''GROQ_API'' = Some k" and "env ''GROQ_API2'' = None" and "env ''GROQ_API_KEY'' = None"
  shows "about_app env llm dist ds c repr = about_page llm dist ds c repr
         \<and> chat_groq env summary_groq = Inr ()
         \<and> chatbot_app env llm' dist ds c input s = Raised groq_missing (s, [])"
  using assms
  by (simp add: about_app_key chatbot_app_key chat_groq_def groq_api_key_def about_groq_def
      summary_groq_def chatbot_groq_def)

theorem groq_key_variables_differ_witness:
  "about_app [''GROQ_API'' \<mapsto> ''k''] (\<lambda>_. Inr ''ok'') (\<lambda>_ _. 0) Map.empty empty_collection (\<lambda>_. [])
     = about_page (\<lambda>_. Inr ''ok'') (\<lambda>_ _. 0) Map.empty empty_collection (\<lambda>_. [])
   \<and> chat_groq [''GROQ_API'' \<mapsto> ''k''] summary_groq = Inr ()
   \<and> chatbot_app [''GROQ_API'' \<mapsto> ''k''] (\<lambda>_. Inr ''ok'') (\<lambda>_ _. 0) Map.empty empty_collection None session_init
     = Raised groq_missing (session_init, [])"
  using groq_key_variables_differ [where env = "[''GROQ_API'' \<mapsto> ''k'']" and k = "''k''"] by simp

lemma knowledge_script_existing:
  "pdf_path name \<in> dom (pdf_files s) \<Longrightarrow>
   knowledge_script llm P (Some (name, bytes)) s =
     Done (s, [SidebarSubheader ''Chroma Database'', SidebarData (chroma_get (vectordb s))])"
  by (simp add: knowledge_script_def knowledge_page_def upload_status_def)

text \<open>
  C27. Without a summary key, even after \<open>.env\<close> is loaded, a new upload
  raises at the construction of the summary client with only the file saved
  (the partitioner's own error first, if it fails); every later run with that
  file name, whatever the keys and the file's content by then, does nothing
  and shows the unchanged sidebar: the PDF is never indexed.
\<close>

theorem knowledge_app_no_summary_key:
  assumes "groq_api_key (knowledge_env dotenv env) summary_groq = None"
    and "pdf_path name \<notin> dom (pdf_files s)"
  shows "\<exists>e. knowledge_app dotenv env llm P (Some (name, bytes)) s =
            (knowledge_env dotenv env,
             Raised e (s\<lparr>pdf_files := (pdf_files s)(pdf_path name \<mapsto> bytes)\<rparr>, [Status ''Embedding file...'']))
         \<and> (\<forall>dotenv' env' llm' P' bytes'.
              snd (knowledge_app dotenv' env' llm' P' (Some (name, bytes'))
                     (s\<lparr>pdf_files := (pdf_files s)(pdf_path name \<mapsto> bytes)\<rparr>)) =
              Done (s\<lparr>pdf_files := (pdf_files s)(pdf_path name \<mapsto> bytes)\<rparr>,
                    [SidebarSubheader ''Chroma Database'', SidebarData (chroma_get (vectordb s))]))"
proof -
  let ?s0 = "s\<lparr>pdf_files := (pdf_files s)(pdf_path name \<mapsto> bytes)\<rparr>"
  have first: "\<exists>e. knowledge_app dotenv env llm P (Some (name, bytes)) s =
                 (knowledge_env dotenv env, Raised e (?s0, [Status ''Embedding file...'']))"
    using assms
    by (simp add: knowledge_app_def chat_groq_def upload_status_def Let_def split: sum.split)
  have "snd (knowledge_app dotenv' env' llm' P' (Some (name, bytes')) ?s0) =
          Done (?s0, [SidebarSubheader ''Chroma Database'', SidebarData (chroma_get (vectordb s))])"
    for dotenv' env' llm' P' bytes'
    using knowledge_script_existing [of name ?s0 llm' P' bytes']
    by (simp add: knowledge_app_def Let_def split: sum.split)
  with first show ?thesis by blast
qed

theorem knowledge_app_no_summary_key_witness:
  "\<exists>e. knowledge_app Map.empty Map.empty (\<lambda>_. Inr ''ok'') (\<lambda>_. Inr []) (Some (''a.pdf'', ''x'')) kb_init =
        (knowledge_env Map.empty Map.empty,
         Raised e (kb_init\<lparr>pdf_files := (pdf_files kb_init)(pdf_path ''a.pdf'' \<mapsto> ''x'')\<rparr>, [Status ''Embedding file...'']))"
proof -
  have "groq_api_key (knowledge_env Map.empty Map.empty) summary_groq = None"
    by (simp add: groq_api_key_def knowledge_env_def load_dotenv_def)
  moreover have "pdf_path ''a.pdf'' \<notin> dom (pdf_files kb_init)" by (simp add: kb_init_def)
  ultimately show ?thesis
    using knowledge_app_no_summary_key [where dotenv = Map.empty and env = Map.empty and llm = "\<lambda>_. Inr ''ok''"
        and P = "\<lambda>_. Inr []" and name = "''a.pdf''" and bytes = "''x''" and s = kb_init]
    by blast
qed

end
