(* ===== verification/Spec2Isabelle.thy ===== *)
theory Spec2Isabelle
  imports Env
begin

text \<open>
  \<^bold>\<open>A verification model of the RAG chatbot of the Electrical Engineering
  department of the University of Mataram.\<close>

  \<^bold>\<open>The program.\<close> A Streamlit multipage application (\<open>src/\<close>). The
  knowledge page \<open>src/pages/3Knowlage.py\<close> ingests an uploaded PDF: it saves
  the file under \<open>pdfFiles/\<close>, partitions it with \<open>partition_pdf\<close>, keeps
  tables (as HTML) and narrative text, addresses, e-mail addresses and composite
  elements (as text), summarises every element with a Groq model, writes the
  originals to a file-backed key-value docstore under fresh \<open>uuid4\<close>
  identifiers and adds documents carrying the same identifiers to a persistent
  Chroma collection. The chat pages (\<open>src/Chatbot.py\<close>,
  \<open>src/pages/2Chat Local.py\<close>) answer questions by similarity search over
  the collection, joining every hit back to its original through the identifier
  (langchain's \<open>MultiVectorRetriever\<close>), and keep the conversation in
  \<open>st.session_state.chat_history\<close>. \<open>src/pages/4About.py\<close> runs four
  fixed retrieval queries; \<open>src/pages/5Test.py\<close> rewrites one vector entry.

  \<^bold>\<open>The theories.\<close>
  \<^item> \<open>RAG_Prelude\<close>: errors standing for exceptions, the outcome of a script
    run (\<open>Done\<close> or \<open>Raised\<close>, with the state reached either way), Python
    dictionaries, \<open>in\<close> on strings, \<open>str.split()\<close>, \<open>str.join\<close>, and the
    model of \<open>uuid4\<close> as an injective sequence with a counter.
  \<^item> \<open>Stores\<close>: langchain's \<open>Document\<close>, the docstore (\<open>mset\<close>,
    \<open>mget\<close>) and the Chroma collection (\<open>add_documents\<close>,
    \<open>similarity_search\<close>, \<open>update_document\<close>), modelled from their
    documented behaviour because that code is not part of \<open>src/\<close>.
  \<^item> \<open>Partition\<close>: the categorisation loop of the knowledge page
    (\<open>categorize_one\<close>, \<open>categorize\<close>, \<open>table_elements\<close>,
    \<open>text_elements\<close>).
  \<^item> \<open>Ingest\<close>: the knowledge page as a function \<open>knowledge_page\<close> from an
    optional upload and a state (upload folder, docstore, collection,
    identifier counter) to a script outcome; the partitioner and the summary
    chain are parameters that may fail.
  \<^item> \<open>Knowledge\<close>: the knowledge page as a whole script,
    \<open>knowledge_script\<close>: the summary chain built from the model
    (\<open>summary_prompt\<close>, \<open>summary_chain\<close>), the status box and the Chroma
    sidebar (\<open>chroma_get\<close>), and the progress lemmas of an upload.
  \<^item> \<open>Retriever\<close>: langchain's \<open>MultiVectorRetriever\<close> (vector hits,
    first-occurrence identifier collection, \<open>mget\<close>, dropping misses), the
    retrievers of the pages, the chat-message conversion, the two
    question-answering prompts and \<open>create_retrieval_chain\<close>.
  \<^item> \<open>Chat\<close>: the main chat page \<open>src/Chatbot.py\<close> as \<open>chatbot_page\<close>, one
    script run from the session record (\<open>chat_history\<close>) and an optional
    question to the new session and the screen events; \<open>chatbot_turn\<close> is the
    \<open>st.chat_input\<close> block, \<open>typing_frames\<close> the typing loop.
  \<^item> \<open>Chat_Local\<close>: \<open>src/pages/2Chat Local.py\<close> as \<open>local_page\<close> over the
    same session record, with its tolerant rendering \<open>render_local\<close> and
    word-by-word typing \<open>word_typing\<close>; \<open>sess_wf\<close> is the shared history
    invariant.
  \<^item> \<open>Pages\<close>: \<open>src/pages/4About.py\<close> (\<open>ask_question\<close>, \<open>about_page\<close>) and
    \<open>src/pages/5Test.py\<close> (\<open>test_page\<close>).
  \<^item> \<open>Env\<close>: the process environment shared by the pages, the knowledge
    page's \<open>load_dotenv\<close> (\<open>knowledge_env\<close>), the three \<open>ChatGroq\<close>
    clients with their key variables, and the main chat and About pages with
    their client built at import time (\<open>chatbot_app\<close>, \<open>about_app\<close>),
    and the knowledge page with its summary client built inside the upload
    block (\<open>knowledge_app\<close>).
  Every page opens the collection \<open>database\<close> under \<open>./vectorDB\<close> and the
  docstore \<open>./docstore\<close> from literals at import time, so all pages are
  modelled over one knowledge base; what differs is the embedder, which is the
  \<open>rv_embedder\<close> of each page's retriever (\<open>chatbot_retriever\<close>,
  \<open>local_retriever\<close>, \<open>about_retriever\<close>, and \<open>mxbai\<close> for the
  knowledge and Test pages).
  \<^item> This theory: the knowledge bases reachable by any sequence of uploads
    (\<open>kb_reach\<close>), the sessions reachable by any sequence of chat-page runs
    (\<open>sess_reach\<close>), and the properties that span components.

  \<^bold>\<open>What is proved.\<close> The join invariant (every indexed entry's \<open>doc_id\<close>
  names a stored original, and the identifier counter is fresh) holds in every
  reachable knowledge base, so retrieval loses no hit at the join; storing originals is an \<open>mset\<close>/\<open>mget\<close>
  round trip; a successful
  upload extends the knowledge base by one entry per element, tables indexed by
  their summaries and texts by their own text; an upload without tables aborts
  before any text is stored; an upload that raised can never be retried under
  the same file name. The main chat page sends the model the question twice,
  stores question and answer on success and a lone question on failure, and
  keeps histories alternating on normal runs; the local page stores the answer
  re-joined word by word. Reachable sessions always render and convert. The
  Test page breaks the join unless its
  fixed \<open>doc_id\<close> is stored; the nomic pages fail with a dimension error on
  every non-empty knowledge base the knowledge page builds. An upload with tables and text and a responding
  summary model always completes (progress); one with tables only raises after
  indexing the tables. Categorised elements are always typed \<open>table\<close> or \<open>text\<close>.
  The local page refines an abstract log of question and answer pairs
  (\<open>qa_pairs\<close>), appending its re-typed \<open>full_response\<close> of the chain's
  answer. The About page writes at most nine outputs. A rerun of the knowledge page with the
  same upload changes nothing. The main chat page depends on the knowledge
  page having loaded \<open>.env\<close>, and reads a different key variable than the
  About page and the summary chain. Without a summary key a new upload raises
  after saving the file and is never indexed afterwards. On a collection never written the
  About page never calls the model. The two chat pages interleave on one
  session: the main page's model then sees the local page's re-typed reply as
  the assistant turn.

  \<^bold>\<open>Bounds and abstractions.\<close> No loop of the program is unbounded: every
  loop runs over a finite list (partitioner elements, hits, history messages,
  characters and words of an answer, the four fixed questions), so every
  function is total, defined by structural recursion, and no fuel is needed;
  the one \<open>function\<close> with a termination proof, \<open>py_replace\<close>, models a
  library call. There is no fixed-width arithmetic in the program. \<open>uuid4\<close> is modelled by the \<open>n\<close>-th value of an injective
  sequence, which is exactly the uniqueness the code relies on. Embeddings are
  abstracted to a dimension per model and a distance function given as a
  parameter. The language models, the partitioner and the embedder are
  parameters returning a value or an error.

  \<^bold>\<open>Not modelled.\<close> Streamlit rendering beyond a list of screen events
  (the spinner, \<open>time.sleep\<close>, the printed debug output), the PDF viewer
  import, directory creation and \<open>set_page_config\<close>, the content of model
  answers, Python's \<open>str\<close> of a document list (a parameter of the About page),
  the vector arithmetic of the embeddings. Strings are lists of 8-bit
  characters, the UTF-8 bytes of Python's \<open>str\<close>; \<open>str.split()\<close> is
  modelled at the ASCII whitespace only, so an answer containing a non-ASCII
  whitespace code point (U+00A0, U+2000 to U+200A, ...) is split differently
  by the model; no byte of a multi-byte character is ever taken for a blank.
  The \<open>UnstructuredClient\<close> of the
  knowledge page is built but never called, and the local page's Ollama
  client needs no key, so neither changes modelled state.
\<close>

section \<open>Reachable knowledge bases\<close>

text \<open>
  The stores persist across runs of the knowledge page; starting from empty
  stores, any sequence of uploads with any partitioner and summariser outcome
  gives a reachable state.
\<close>

inductive kb_reach :: "kb_state \<Rightarrow> bool" where
  init: "kb_reach kb_init"
| upload: "kb_reach s \<Longrightarrow> kb_reach (run_state (knowledge_page P S u s))"

text \<open>
  The chat pages share one session state; any sequence of runs of either page,
  each with any model, knowledge base and input, gives a reachable session.
\<close>

inductive sess_reach :: "session \<Rightarrow> bool" where
  init: "sess_reach session_init"
| chatbot: "sess_reach s \<Longrightarrow> sess_reach (fst (run_state (chatbot_page llm dist ds c input s)))"
| local: "sess_reach s \<Longrightarrow> sess_reach (fst (run_state (local_page llm dist ds c input s)))"

lemma sess_reach_wf: "sess_reach s \<Longrightarrow> sess_wf s"
proof (induction rule: sess_reach.induct)
  case init
  show ?case by (simp add: sess_wf_def session_init_def)
qed (simp_all add: chatbot_page_wf local_page_wf)

lemma kb_reach_dim: "kb_reach s \<Longrightarrow> mxbai_dim s"
proof (induction rule: kb_reach.induct)
  case init
  show ?case by (simp add: mxbai_dim_def kb_init_def empty_collection_def)
qed (simp add: knowledge_page_dim)

lemma kb_reach_inv: "kb_reach s \<Longrightarrow> kb_inv s"
  by (induction rule: kb_reach.induct) (simp_all add: kb_inv_init knowledge_page_inv)

lemma reachable_dim_1024:
  "kb_reach s \<Longrightarrow> dimension (vectordb s) \<noteq> None \<Longrightarrow> dimension (vectordb s) = Some 1024"
  using kb_reach_dim [of s] by (auto simp: mxbai_dim_def mxbai_def)

lemma reachable_nomic_error:
  "kb_reach s \<Longrightarrow> dimension (vectordb s) \<noteq> None \<Longrightarrow>
   mv_get_relevant_documents local_retriever dist (docstore s) (vectordb s) q = Inl (InvalidDimension 1024 768)"
  using mv_get_dim_mismatch [OF reachable_dim_1024] by (simp add: local_retriever_def nomic_def)

lemma kb_reach_joins: "kb_reach s \<Longrightarrow> joins (docstore s) (vectordb s)"
  using kb_reach_inv by (simp add: kb_inv_def)

text \<open>
  Under the join invariant, every identifier the retriever collects from its hits
  names a stored original, so \<open>mget\<close> returns \<open>Some\<close> for each of them and
  the final filter drops nothing.
\<close>

lemma joins_retrieval:
  assumes "joins ds c" and "mv_get_relevant_documents r dist ds c q = Inr docs"
  shows "\<exists>hits. vector_hits r dist q c = Inr hits \<and> map Some docs = map ds (collect_ids [] hits)"
proof -
  obtain hits where h: "vector_hits r dist q c = Inr hits"
    and docs: "docs = List.map_filter (\<lambda>x. x) (map ds (collect_ids [] hits))"
    using mv_get_relevant_documents_Inr [OF assms(2)] by blast
  have some: "\<forall>x \<in> set (map ds (collect_ids [] hits)). x \<noteq> None"
  proof
    fix x assume "x \<in> set (map ds (collect_ids [] hits))"
    then obtain i where x: "x = ds i" and "i \<in> set (collect_ids [] hits)" by auto
    then obtain d where d: "d \<in> set hits" and i: "map_of (metadata d) id_key = Some i"
      by (auto simp: collect_ids_set)
    from d vector_hits_Inr [OF h] obtain e where "e \<in> set (entries c)" and "d = entry_doc e"
      by blast
    with i assms(1) have "i \<in> dom ds" by (auto simp: joins_def entry_doc_id_def)
    with x show "x \<noteq> None" by auto
  qed
  have "map Some docs = map ds (collect_ids [] hits)"
    unfolding docs map_filter_id_all_Some [OF some] using some by (induction "collect_ids [] hits") auto
  with h show ?thesis by blast
qed

section \<open>Properties\<close>

text \<open>Sample partitioner output used by the witnesses.\<close>

definition sample_text :: pdf_element where
  "sample_text = \<lparr>el_class = ''unstructured.documents.elements.NarrativeText'',
     el_text = ''Ketua jurusan: Dr. A'', el_html = None\<rparr>"

definition sample_table :: pdf_element where
  "sample_table = \<lparr>el_class = ''unstructured.documents.elements.Table'',
     el_text = ''t'', el_html = Some ''<table/>''\<rparr>"

definition sample_summarize :: summarizer where
  "sample_summarize x = Inr (''S:'' @ x)"

text \<open>An upload of one text and one table from an empty knowledge base.\<close>

lemma knowledge_page_indexes_witness:
  "\<exists>s'. knowledge_page (\<lambda>_. Inr [sample_text, sample_table]) sample_summarize
          (Some (''a.pdf'', ''bytes'')) kb_init = Done s' \<and>
        kb_pairs s' = [(''S:<table/>'', Some ''<table/>''),
                       (''Ketua jurusan: Dr. A'', Some ''Ketua jurusan: Dr. A'')]"
proof -
  obtain s' where ok: "knowledge_page (\<lambda>_. Inr [sample_text, sample_table]) sample_summarize
          (Some (''a.pdf'', ''bytes'')) kb_init = Done s'"
    by (simp add: kb_eval_defs sample_text_def sample_table_def sample_summarize_def)
  have "kb_pairs s' = kb_pairs kb_init
           @ zip [''S:<table/>''] (map (\<lambda>e. Some (el_content e)) (table_elements (categorize [sample_text, sample_table])))
           @ map (\<lambda>e. (el_content e, Some (el_content e))) (text_elements (categorize [sample_text, sample_table]))"
    by (rule Ingest.knowledge_page_indexes [OF kb_inv_init _ _ _ ok])
       (simp_all add: kb_eval_defs sample_text_def sample_table_def sample_summarize_def)
  with ok show ?thesis
    by (simp add: kb_eval_defs sample_text_def sample_table_def)
qed

text \<open>
  C2. In every knowledge base reachable by uploads, whatever the partitioner and
  the summariser did, every indexed entry's \<open>doc_id\<close> names a stored
  original, and the identifier generator is fresh for the docstore keys and the
  entry ids.
\<close>

theorem kb_reach_kb_inv: "kb_reach s \<Longrightarrow> kb_inv s"
proof (induction rule: kb_reach.induct)
  case init
  show ?case by (rule kb_inv_init)
next
  case (upload s P S u)
  from upload.IH show ?case by (rule knowledge_page_inv)
qed

definition sample_state :: kb_state where
  "sample_state = run_state (knowledge_page (\<lambda>_. Inr [sample_text, sample_table]) sample_summarize
                     (Some (''a.pdf'', ''bytes'')) kb_init)"

lemma sample_state_reach: "kb_reach sample_state"
  unfolding sample_state_def by (rule kb_reach.upload [OF kb_reach.init])

theorem kb_reach_kb_inv_witness: "kb_reach sample_state \<and> kb_inv sample_state"
  using sample_state_reach kb_reach_kb_inv [OF sample_state_reach] by simp

text \<open>
  C3. In every reachable knowledge base, a retrieval that succeeds returns, for
  each distinct \<open>doc_id\<close> among the vector hits in order of first occurrence,
  exactly the stored original: no hit is lost at the join.
\<close>

theorem reachable_retrieval_complete:
  assumes "kb_reach s" and "mv_get_relevant_documents r dist (docstore s) (vectordb s) q = Inr docs"
  shows "\<exists>hits. vector_hits r dist q (vectordb s) = Inr hits \<and>
           map Some docs = map (docstore s) (collect_ids [] hits)"
  using joins_retrieval [OF kb_reach_joins [OF assms(1)] assms(2)] .

lemmas retrieval_eval_defs =
  mv_get_relevant_documents_def vector_hits_def chroma_relevance_search_def
  chroma_similarity_search_def search_k_def docstore_mget_def chatbot_retriever_def

theorem reachable_retrieval_complete_witness:
  "\<exists>docs. mv_get_relevant_documents chatbot_retriever (\<lambda>_ _. 0) (docstore sample_state) (vectordb sample_state)
            ''Ketua jurusan?'' = Inr docs \<and>
          (\<exists>hits. vector_hits chatbot_retriever (\<lambda>_ _. 0) ''Ketua jurusan?'' (vectordb sample_state) = Inr hits \<and>
             map Some docs = map (docstore sample_state) (collect_ids [] hits))"
proof -
  obtain docs where r: "mv_get_relevant_documents chatbot_retriever (\<lambda>_ _. 0) (docstore sample_state)
      (vectordb sample_state) ''Ketua jurusan?'' = Inr docs"
    by (simp add: sample_state_def kb_eval_defs retrieval_eval_defs sample_text_def sample_table_def
        sample_summarize_def split: option.split)
  show ?thesis
    using r reachable_retrieval_complete [OF sample_state_reach r] by blast
qed

theorem knowledge_page_no_tables_witness:
  "knowledge_page (\<lambda>_. Inr [sample_text]) sample_summarize (Some (''b.pdf'', ''x'')) kb_init =
     Raised (ValueError ''Expected IDs to be a non-empty list, got []'')
       (kb_init\<lparr>pdf_files := (pdf_files kb_init)(pdf_path ''b.pdf'' \<mapsto> ''x'')\<rparr>)"
proof -
  have cat: "categorize [sample_text] = [\<lparr>el_type = ''text'', el_content = ''Ketua jurusan: Dr. A''\<rparr>]"
    by (simp add: kb_eval_defs sample_text_def)
  have new: "pdf_path ''b.pdf'' \<notin> dom (pdf_files kb_init)" by (simp add: kb_init_def)
  have notab: "table_elements (categorize [sample_text]) = []"
    by (simp add: cat table_elements_def)
  have texts: "batch sample_summarize (map el_content (text_elements (categorize [sample_text])))
      = Inr [''S:Ketua jurusan: Dr. A'']"
    by (simp add: cat text_elements_def sample_summarize_def)
  show ?thesis
    by (rule Ingest.knowledge_page_no_tables [OF new _ notab texts]) simp
qed

theorem knowledge_page_failed_upload_blocks_witness:
  "knowledge_page (\<lambda>_. Inl (ServiceError ''timeout'')) sample_summarize (Some (''c.pdf'', ''x'')) kb_init =
     Raised (ServiceError ''timeout'') (kb_init\<lparr>pdf_files := [pdf_path ''c.pdf'' \<mapsto> ''x'']\<rparr>) \<and>
   knowledge_page (\<lambda>_. Inr [sample_text, sample_table]) sample_summarize (Some (''c.pdf'', ''y''))
     (kb_init\<lparr>pdf_files := [pdf_path ''c.pdf'' \<mapsto> ''x'']\<rparr>) =
     Done (kb_init\<lparr>pdf_files := [pdf_path ''c.pdf'' \<mapsto> ''x'']\<rparr>)"
proof -
  have r: "knowledge_page (\<lambda>_. Inl (ServiceError ''timeout'')) sample_summarize (Some (''c.pdf'', ''x'')) kb_init =
     Raised (ServiceError ''timeout'') (kb_init\<lparr>pdf_files := [pdf_path ''c.pdf'' \<mapsto> ''x'']\<rparr>)"
    by (simp add: knowledge_page_def embed_file_def kb_init_def)
  show ?thesis
    using r Ingest.knowledge_page_failed_upload_blocks [OF r] by simp
qed

text \<open>
  C16. The local chat page and the About page embed questions with nomic
  (768 dimensions) into the collection the knowledge page fills with mxbai
  vectors (1024 dimensions): on every reachable knowledge base holding at
  least one vector, the local page raises \<open>InvalidDimension\<close> after storing
  and showing the question, and the About page raises it at its first
  question, having shown only the document count.
\<close>

theorem nomic_pages_fail:
  assumes "kb_reach s" and "dimension (vectordb s) \<noteq> None"
    and "chat_history sess = Some h" and "q \<noteq> []"
  shows "local_page llm dist (docstore s) (vectordb s) (Some q) sess =
           Raised (InvalidDimension 1024 768)
             (\<lparr>chat_history = Some (h @ [message ''user'' q])\<rparr>,
              [Subheader local_title, Notice ''Chat History Structure:''] @ render_local h @ [ChatBubble ''user'' q])
         \<and> about_page llm' dist (docstore s) (vectordb s) repr =
           Raised (InvalidDimension 1024 768) [WriteCount about_count_label 7]"
proof -
  have dim: "dimension (vectordb s) = Some 1024" by (rule reachable_dim_1024 [OF assms(1,2)])
  have "about_page llm' dist (docstore s) (vectordb s) repr =
           Raised (InvalidDimension 1024 768) [WriteCount about_count_label 7]"
    using about_page_dim_mismatch [OF dim] by (simp add: nomic_def chroma_get_keys_def)
  with local_page_retrieval_error [OF assms(3,4) reachable_nomic_error [OF assms(1,2)]] show ?thesis
    by simp
qed

lemma sample_state_dim: "dimension (vectordb sample_state) \<noteq> None"
  by (simp add: sample_state_def kb_eval_defs sample_text_def sample_table_def sample_summarize_def)

theorem nomic_pages_fail_witness:
  "local_page (\<lambda>_. Inr ''jawab'') (\<lambda>_ _. 0) (docstore sample_state) (vectordb sample_state) (Some ''Sekjur ?'')
      \<lparr>chat_history = Some []\<rparr> =
     Raised (InvalidDimension 1024 768)
       (\<lparr>chat_history = Some [message ''user'' ''Sekjur ?'']\<rparr>,
        [Subheader local_title, Notice ''Chat History Structure:'', ChatBubble ''user'' ''Sekjur ?''])
   \<and> about_page (\<lambda>_. Inr ''jawab'') (\<lambda>_ _. 0) (docstore sample_state) (vectordb sample_state) (\<lambda>_. [])
     = Raised (InvalidDimension 1024 768) [WriteCount about_count_label 7]"
  using nomic_pages_fail [OF sample_state_reach sample_state_dim, of "\<lparr>chat_history = Some []\<rparr>" "[]" "''Sekjur ?''"]
  by simp

text \<open>
  C17. In every session reachable by runs of the two chat pages, the stored
  history renders on the main page without \<open>KeyError\<close>, converts to chat
  messages without error, and never triggers the local page's
  \<open>Invalid message format\<close> notice.
\<close>

theorem sess_reach_history_ok:
  assumes "sess_reach s" and "chat_history s = Some h"
  shows "(\<exists>evs. render_history h = Inr evs) \<and> (\<exists>hm. convert_messages h = Inr hm)
         \<and> Notice ''Invalid message format'' \<notin> set (render_local h)"
proof -
  have wf: "\<forall>m \<in> set h. wf_message m" using sess_reach_wf [OF assms(1)] assms(2) by (simp add: sess_wf_def)
  show ?thesis using render_history_wf [OF wf] convert_messages_wf [OF wf] render_local_wf [OF wf] by blast
qed

lemma sample_session_reach:
  "sess_reach (fst (run_state (local_page (\<lambda>_. Inl (ServiceError ''down'')) (\<lambda>_ _. 0) Map.empty empty_collection
                (Some ''Sekjur ?'') session_init)))"
  by (rule sess_reach.local [OF sess_reach.init])

lemma sample_session_history:
  "chat_history (fst (run_state (local_page (\<lambda>_. Inl (ServiceError ''down'')) (\<lambda>_ _. 0) Map.empty empty_collection
                (Some ''Sekjur ?'') session_init))) = Some [message ''user'' ''Sekjur ?'']"
  by (simp add: local_page_def local_turn_def init_history_def session_init_def local_rag_chain_def
      retrieval_chain_def qa_prompt_messages_def local_system_prompt_format
      mv_get_relevant_documents_def vector_hits_similarity chroma_similarity_search_def
      empty_collection_def docstore_mget_def List.map_filter_simps format_docs_def Let_def convert_message_def)

theorem sess_reach_history_ok_witness:
  "(\<exists>evs. render_history [message ''user'' ''Sekjur ?''] = Inr evs) \<and>
   (\<exists>hm. convert_messages [message ''user'' ''Sekjur ?''] = Inr hm) \<and>
   Notice ''Invalid message format'' \<notin> set (render_local [message ''user'' ''Sekjur ?''])"
  using sess_reach_history_ok [OF sample_session_reach sample_session_history] .

theorem knowledge_page_no_texts_witness:
  "\<exists>s'. knowledge_page (\<lambda>_. Inr [sample_table]) sample_summarize (Some (''t.pdf'', ''x'')) kb_init =
         Raised (ValueError ''Expected IDs to be a non-empty list, got []'') s'
       \<and> length (entries (vectordb s')) = length (entries (vectordb kb_init)) + 1"
proof -
  have dim: "mxbai_dim kb_init" by (simp add: mxbai_dim_def kb_init_def empty_collection_def)
  have new: "pdf_path ''t.pdf'' \<notin> dom (pdf_files kb_init)" by (simp add: kb_init_def)
  have cat: "categorize [sample_table] = [\<lparr>el_type = ''table'', el_content = ''<table/>''\<rparr>]"
    by (simp add: kb_eval_defs sample_table_def)
  have tab: "table_elements (categorize [sample_table]) \<noteq> []"
    and notxt: "text_elements (categorize [sample_table]) = []"
    by (simp_all add: cat table_elements_def text_elements_def)
  have ts: "batch sample_summarize (map el_content (table_elements (categorize [sample_table])))
      = Inr [''S:<table/>'']"
    by (simp add: cat table_elements_def sample_summarize_def)
  show ?thesis
    using Knowledge.knowledge_page_no_texts [OF kb_inv_init dim new _ tab notxt ts]
    by (simp add: cat table_elements_def)
qed

text \<open>
  C20. Progress of an upload: from every reachable knowledge base, a new PDF
  whose partition has at least one table and one text element, with the
  summary model answering, is indexed completely: the run ends normally, shows
  the status box and the sidebar, and the sidebar lists one more entry per
  table and per text element.
\<close>

theorem upload_progress:
  assumes "kb_reach s" and "pdf_path name \<notin> dom (pdf_files s)" and "P bytes = Inr els"
    and "table_elements (categorize els) \<noteq> []" and "text_elements (categorize els) \<noteq> []"
    and "\<forall>x. \<exists>y. llm [HumanMessage (summary_prompt x)] = Inr y"
  shows "\<exists>s'. knowledge_script llm P (Some (name, bytes)) s =
            Done (s', [Status ''Embedding file...'', SidebarSubheader ''Chroma Database'',
                       SidebarData (chroma_get (vectordb s'))])
          \<and> length (get_ids (chroma_get (vectordb s'))) = length (entries (vectordb s))
              + length (table_elements (categorize els)) + length (text_elements (categorize els))"
proof -
  have total: "\<forall>x. \<exists>y. summary_chain llm x = Inr y" using assms(6) by (simp add: summary_chain_def)
  obtain ts where ts: "batch (summary_chain llm) (map el_content (table_elements (categorize els))) = Inr ts"
    using batch_total [OF total] by blast
  obtain xs where xs: "batch (summary_chain llm) (map el_content (text_elements (categorize els))) = Inr xs"
    using batch_total [OF total] by blast
  obtain s' where e: "embed_file P (summary_chain llm) name bytes s = Done s'"
    and l: "length (entries (vectordb s')) = length (entries (vectordb s))
              + length (table_elements (categorize els)) + length (text_elements (categorize els))"
    using embed_file_progress [where P = P and bytes = bytes and name = name,
        OF kb_reach_inv [OF assms(1)] kb_reach_dim [OF assms(1)] assms(3,4,5) ts xs]
    by blast
  show ?thesis
    using assms(2) e l
    by (simp add: knowledge_script_def knowledge_page_def upload_status_def chroma_get_def)
qed

theorem upload_progress_witness:
  "\<exists>s'. knowledge_script (\<lambda>_. Inr ''ringkasan'') (\<lambda>_. Inr [sample_text, sample_table]) (Some (''u.pdf'', ''x'')) kb_init =
          Done (s', [Status ''Embedding file...'', SidebarSubheader ''Chroma Database'',
                     SidebarData (chroma_get (vectordb s'))])
        \<and> length (get_ids (chroma_get (vectordb s'))) = length (entries (vectordb kb_init)) + 1 + 1"
proof -
  have new: "pdf_path ''u.pdf'' \<notin> dom (pdf_files kb_init)" by (simp add: kb_init_def)
  have cat: "categorize [sample_text, sample_table] =
      [\<lparr>el_type = ''text'', el_content = ''Ketua jurusan: Dr. A''\<rparr>, \<lparr>el_type = ''table'', el_content = ''<table/>''\<rparr>]"
    by (simp add: kb_eval_defs sample_text_def sample_table_def)
  have tab: "table_elements (categorize [sample_text, sample_table]) \<noteq> []"
    and txt_ne: "text_elements (categorize [sample_text, sample_table]) \<noteq> []"
    by (simp_all add: cat table_elements_def text_elements_def)
  have llm: "\<forall>x. \<exists>y. (\<lambda>_. Inr ''ringkasan'') [HumanMessage (summary_prompt x)] = (Inr y :: error + string)"
    by simp
  show ?thesis
    using upload_progress [OF kb_reach.init new _ tab txt_ne llm]
    by (simp add: cat table_elements_def text_elements_def)
qed


end
